theory Spec2Isabelle
  imports Main
begin

section \<open>Values of the program\<close>

text \<open>
  The program is \<^verbatim>\<open>src/js/main.js\<close>: a page script whose state is a handful of
  module-level variables, a few DOM controls, the browser's timers and three
  collaborators (Tone.js, the Notification API, localStorage).

  Numbers: every number the script computes with is an integer far below \<open>2^53\<close>
  (milliseconds since the epoch, seconds, minutes), where JavaScript's doubles are exact;
  they are modelled as \<^typ>\<open>int\<close>. Timestamps: the script stores
  \<^verbatim>\<open>new Date().toISOString()\<close> and reads it back with \<^verbatim>\<open>new Date(iso)\<close>; the
  ISO text keeps the millisecond, so a timestamp is modelled by its millisecond count and
  \<^verbatim>\<open>null\<close> by \<open>None\<close>. Strings are lists of UTF-16 code units.
\<close>

type_synonym js_string = "nat list"

text \<open>
  \<^verbatim>\<open>String.prototype.trim\<close> strips ECMAScript white space and line terminators from
  both ends: TAB, LF, VT, FF, CR, SP, NBSP, U+1680, U+2000..U+200A, U+2028, U+2029, U+202F,
  U+205F, U+3000 and U+FEFF.
\<close>

definition js_whitespace :: "nat \<Rightarrow> bool" where
  "js_whitespace c =
     (c \<in> set [9, 10, 11, 12, 13, 32, 160, 5760, 8232, 8233, 8239, 8287, 12288, 65279]
      \<or> (8192 \<le> c \<and> c \<le> 8202))"

definition js_trim :: "js_string \<Rightarrow> js_string" where
  "js_trim g = rev (dropWhile js_whitespace (rev (dropWhile js_whitespace g)))"

text \<open>
  \<^verbatim>\<open>Math.round(x / 1000)\<close> for an integer \<open>x\<close>: \<^verbatim>\<open>Math.round\<close> rounds to the
  nearest integer and a tie towards \<open>+\<infinity>\<close>, that is \<open>\<lfloor>x / 1000 + 1/2\<rfloor>\<close>.
\<close>

definition round_div_1000 :: "int \<Rightarrow> int" where
  "round_div_1000 x = (x + 500) div 1000"

record pause_entry =
  pauseTime :: int
  resumeTime :: "int option"

record session =
  goal :: js_string
  startTime :: int
  endTime :: "int option"
  duration :: int
  pauses :: "pause_entry list"

section \<open>The collaborators\<close>

datatype permission = Default | Granted | Denied

text \<open>
  What the script can observe of its collaborators, and whether their calls raise.
  \<open>toneDefined\<close> is \<^verbatim>\<open>typeof Tone !== 'undefined'\<close>; \<open>notificationSupported\<close> is
  \<^verbatim>\<open>'Notification' in window\<close>; \<open>storageAvailable\<close> is the result of the probe
  \<^verbatim>\<open>isLocalStorageAvailable\<close>, which catches its own exception. \<open>soundRaises\<close> and
  \<open>notificationRaises\<close> say that the Tone.js calls of \<^verbatim>\<open>playSound\<close> /
  \<^verbatim>\<open>playTestSound\<close>, respectively \<^verbatim>\<open>new Notification(...)\<close>, throw, and
  \<open>storageWriteRaises\<close> that \<^verbatim>\<open>localStorage.setItem('pomodoroSessions', ...)\<close> in
  \<^verbatim>\<open>saveSessions\<close> throws although the probe has succeeded (the quota is exceeded by
  the log, not by the probe's four characters). The script makes all these calls with no
  \<^verbatim>\<open>try\<close> around them, so the exception leaves the handler with the state as it is
  at that point.
\<close>

record world =
  toneDefined :: bool
  soundRaises :: bool
  notificationSupported :: bool
  notificationPermission :: permission
  notificationRaises :: bool
  storageAvailable :: bool
  storageWriteRaises :: bool

datatype js_error =
  ReferenceError | TypeError | SoundError | NotificationError | QuotaExceededError

text \<open>The two callbacks the script hands to \<^verbatim>\<open>setTimeout\<close>.\<close>

datatype callback = OnTimerEnd | ClearGoalError

text \<open>
  The calls made on the collaborators, logged in the order they happen:
  \<^verbatim>\<open>Tone.start()\<close>; \<^verbatim>\<open>Notification.requestPermission()\<close>; the sound loop of
  \<^verbatim>\<open>playSound\<close> started; the two notes of \<^verbatim>\<open>playTestSound\<close>; the transport
  stopped and the synth disposed; \<^verbatim>\<open>new Notification\<close> with the goal text of its
  body; the completion modal made visible; \<^verbatim>\<open>sessions.unshift(currentSession)\<close>,
  the append to the session log; and \<^verbatim>\<open>localStorage.setItem\<close> with the log written.
\<close>

datatype effect =
    ToneStart
  | PermissionRequest
  | SoundLoop
  | TestSound
  | SoundStop
  | SystemNotification js_string
  | ModalShown
  | SessionLogged session
  | StorageWrite "session list"

section \<open>The state\<close>

text \<open>
  The module-level variables keep their names, but for the global \<^verbatim>\<open>duration\<close>, which
  is \<open>cfgDuration\<close> here (the session record has a field of that name). Of the DOM the
  model keeps what the script reads back or what gates an event: the goal field (value,
  disabled, error styling), the duration select (value in minutes, disabled) and the
  completion modal. Writes that are never read back (button label and colours, the
  rendered countdown, the log table, the JSON text area) are left out. The browser's
  pending one-shot timers and animation frames are lists of handles; \<open>stored\<close> is the
  \<^verbatim>\<open>pomodoroSessions\<close> entry of localStorage.
\<close>

record state =
  targetTime :: "int option"
  timeLeft :: int
  isRunning :: bool
  animationFrameId :: "nat option"
  timeoutId :: "nat option"
  cfgDuration :: int
  currentSession :: "session option"
  sessions :: "session list"
  synth :: bool
  goalInput_value :: js_string
  goalInput_disabled :: bool
  goalInput_invalid :: bool
  durationSelect_value :: int
  durationSelect_disabled :: bool
  modal_visible :: bool
  pendingTimeouts :: "(nat \<times> callback \<times> int) list"
  pendingFrames :: "nat list"
  nextHandle :: nat
  world :: world
  stored :: "session list option"
  effects :: "effect list"

type_synonym outcome = "js_error option \<times> state"

subsection \<open>Browser timers\<close>

definition setTimeout :: "callback \<Rightarrow> int \<Rightarrow> state \<Rightarrow> nat \<times> state" where
  "setTimeout cb delay s =
     (nextHandle s,
      s\<lparr>pendingTimeouts := pendingTimeouts s @ [(nextHandle s, cb, delay)],
        nextHandle := nextHandle s + 1\<rparr>)"

definition clearTimeout :: "nat option \<Rightarrow> state \<Rightarrow> state" where
  "clearTimeout h s =
     s\<lparr>pendingTimeouts := filter (\<lambda>t. Some (fst t) \<noteq> h) (pendingTimeouts s)\<rparr>"

definition requestAnimationFrame :: "state \<Rightarrow> nat \<times> state" where
  "requestAnimationFrame s =
     (nextHandle s,
      s\<lparr>pendingFrames := pendingFrames s @ [nextHandle s],
        nextHandle := nextHandle s + 1\<rparr>)"

definition cancelAnimationFrame :: "nat option \<Rightarrow> state \<Rightarrow> state" where
  "cancelAnimationFrame h s =
     s\<lparr>pendingFrames := filter (\<lambda>f. Some f \<noteq> h) (pendingFrames s)\<rparr>"

definition log_effect :: "effect \<Rightarrow> state \<Rightarrow> state" where
  "log_effect e s = s\<lparr>effects := effects s @ [e]\<rparr>"

subsection \<open>Local storage\<close>

definition isLocalStorageAvailable :: "state \<Rightarrow> bool" where
  "isLocalStorageAvailable s = storageAvailable (world s)"

text \<open>
  \<^verbatim>\<open>saveSessions\<close>: only the probe is inside a \<^verbatim>\<open>try\<close>; the write of the log is
  not, and when it throws nothing is stored.
\<close>

definition saveSessions :: "state \<Rightarrow> outcome" where
  "saveSessions s =
     (if isLocalStorageAvailable s
      then (if storageWriteRaises (world s) then (Some QuotaExceededError, s)
            else (None, log_effect (StorageWrite (sessions s)) (s\<lparr>stored := Some (sessions s)\<rparr>)))
      else (None, s))"

text \<open>
  \<^verbatim>\<open>updateSessionLog\<close> and \<^verbatim>\<open>updateDisplay\<close> only render: they write the log table,
  the JSON text area and the countdown text, none of which the script reads back.
\<close>

definition updateSessionLog :: "state \<Rightarrow> state" where
  "updateSessionLog s = s"

definition updateDisplay :: "state \<Rightarrow> state" where
  "updateDisplay s = s"

definition loadSessions :: "state \<Rightarrow> state" where
  "loadSessions s =
     updateSessionLog
       (if isLocalStorageAvailable s
        then (case stored s of Some xs \<Rightarrow> s\<lparr>sessions := xs\<rparr> | None \<Rightarrow> s)
        else s)"

subsection \<open>Notifications and sound\<close>

definition requestNotificationPermission :: "state \<Rightarrow> state" where
  "requestNotificationPermission s =
     (if notificationSupported (world s) \<and> notificationPermission (world s) = Default
      then log_effect PermissionRequest s else s)"

text \<open>The text \<^verbatim>\<open>your task\<close>, the fallback of the notification body.\<close>

definition your_task :: js_string where
  "your_task = [121, 111, 117, 114, 32, 116, 97, 115, 107]"

definition showSystemNotification :: "state \<Rightarrow> outcome" where
  "showSystemNotification s =
     (if notificationSupported (world s) \<and> notificationPermission (world s) = Granted
      then (if notificationRaises (world s) then (Some NotificationError, s)
            else (None,
                  log_effect
                    (SystemNotification
                       (case currentSession s of
                          None \<Rightarrow> your_task
                        | Some c \<Rightarrow> if goal c = [] then your_task else goal c)) s))
      else (None, s))"

definition playSound :: "state \<Rightarrow> outcome" where
  "playSound s =
     (if \<not> toneDefined (world s) then (None, s)
      else if soundRaises (world s) then (Some SoundError, s)
      else (None, log_effect SoundLoop (s\<lparr>synth := True\<rparr>)))"

definition playTestSound :: "state \<Rightarrow> outcome" where
  "playTestSound s =
     (if \<not> toneDefined (world s) then (None, s)
      else if soundRaises (world s) then (Some SoundError, s)
      else (None, log_effect TestSound s))"

subsection \<open>Core timer logic\<close>

text \<open>
  \<^verbatim>\<open>updateDisplayLoop\<close>, the animation-frame callback; \<open>now\<close> is \<^verbatim>\<open>Date.now()\<close>.
  With \<^verbatim>\<open>targetTime\<close> undefined the difference is \<^verbatim>\<open>NaN\<close>, which differs from every
  number and is not greater than zero, so \<^verbatim>\<open>timeLeft\<close> becomes 0.
\<close>

definition updateDisplayLoop :: "int \<Rightarrow> state \<Rightarrow> state" where
  "updateDisplayLoop now s =
     (if \<not> isRunning s then s
      else
        let s1 = (case targetTime s of
                    None \<Rightarrow> updateDisplay (s\<lparr>timeLeft := 0\<rparr>)
                  | Some t \<Rightarrow>
                      let newTimeLeft = round_div_1000 (t - now)
                      in if newTimeLeft \<noteq> timeLeft s
                         then updateDisplay
                                (s\<lparr>timeLeft := (if newTimeLeft > 0 then newTimeLeft else 0)\<rparr>)
                         else s)
        in if timeLeft s1 > 0
           then (let (h, s2) = requestAnimationFrame s1 in s2\<lparr>animationFrameId := Some h\<rparr>)
           else s1)"

text \<open>
  \<^verbatim>\<open>startTimer\<close>, the handler of the start/pause button and of the space key.
  \<open>tnow\<close> is the \<^verbatim>\<open>Date.now()\<close> it reads for the deadline, \<open>dnow\<close> the
  \<^verbatim>\<open>new Date()\<close> it reads for the record. Its first statement, \<^verbatim>\<open>Tone.start()\<close>,
  names \<^verbatim>\<open>Tone\<close> without a guard; pausing with no record reads \<^verbatim>\<open>pauses\<close> of
  \<^verbatim>\<open>null\<close>.
\<close>

definition resumeLastPause :: "int \<Rightarrow> session \<Rightarrow> session" where
  "resumeLastPause dnow c =
     (if pauses c \<noteq> [] then
        (let lastPause = last (pauses c)
         in if resumeTime lastPause = None
            then c\<lparr>pauses := butlast (pauses c) @ [lastPause\<lparr>resumeTime := Some dnow\<rparr>]\<rparr>
            else c)
      else c)"

definition startTimer :: "int \<Rightarrow> int \<Rightarrow> state \<Rightarrow> outcome" where
  "startTimer tnow dnow s =
     (if \<not> toneDefined (world s) then (Some ReferenceError, s)
      else
        let s0 = requestNotificationPermission (log_effect ToneStart s) in
        if \<not> isRunning s0 then
          (if js_trim (goalInput_value s0) = [] then
             (None, snd (setTimeout ClearGoalError 2000 (s0\<lparr>goalInput_invalid := True\<rparr>)))
           else
             let s1 = s0\<lparr>isRunning := True, targetTime := Some (tnow + timeLeft s0 * 1000)\<rparr>;
                 (h, s2) = setTimeout OnTimerEnd (timeLeft s1 * 1000) s1;
                 s3 = s2\<lparr>timeoutId := Some h\<rparr>;
                 (f, s4) = requestAnimationFrame s3;
                 s5 = s4\<lparr>animationFrameId := Some f,
                         durationSelect_disabled := True, goalInput_disabled := True\<rparr>
             in (None,
                 (case currentSession s5 of
                    None \<Rightarrow>
                      s5\<lparr>currentSession :=
                           Some \<lparr>goal = goalInput_value s5, startTime = dnow,
                                 endTime = None, duration = 0, pauses = []\<rparr>\<rparr>
                  | Some c \<Rightarrow> s5\<lparr>currentSession := Some (resumeLastPause dnow c)\<rparr>)))
        else
          let s1 = cancelAnimationFrame (animationFrameId s0)
                     (clearTimeout (timeoutId s0) (s0\<lparr>isRunning := False\<rparr>))
          in (case currentSession s1 of
                None \<Rightarrow> (Some TypeError, s1)
              | Some c \<Rightarrow>
                  (None,
                   s1\<lparr>currentSession :=
                        Some (c\<lparr>pauses :=
                                  pauses c @ [\<lparr>pauseTime = dnow, resumeTime = None\<rparr>]\<rparr>)\<rparr>)))"

definition resetTimer :: "state \<Rightarrow> state" where
  "resetTimer s =
     (let s1 = cancelAnimationFrame (animationFrameId s)
                 (clearTimeout (timeoutId s) (s\<lparr>isRunning := False\<rparr>));
          s2 = s1\<lparr>cfgDuration := durationSelect_value s1 * 60\<rparr>;
          s3 = updateDisplay (s2\<lparr>timeLeft := cfgDuration s2\<rparr>)
      in s3\<lparr>durationSelect_disabled := False, goalInput_disabled := False,
             goalInput_value := [], currentSession := None\<rparr>)"

definition changeDuration :: "state \<Rightarrow> state" where
  "changeDuration s =
     (if \<not> isRunning s then
        (let s1 = s\<lparr>cfgDuration := durationSelect_value s * 60\<rparr>
         in updateDisplay (s1\<lparr>timeLeft := cfgDuration s1\<rparr>))
      else s)"

text \<open>
  The \<^verbatim>\<open>forEach\<close> loop of \<^verbatim>\<open>endSession\<close> that adds up the pauses with a
  \<^verbatim>\<open>resumeTime\<close>, as a left fold over the accumulator \<^verbatim>\<open>totalPauseTime\<close>.
\<close>

definition totalPauseTime :: "pause_entry list \<Rightarrow> int" where
  "totalPauseTime ps =
     foldl (\<lambda>acc p. case resumeTime p of
                       Some r \<Rightarrow> acc + (r - pauseTime p)
                     | None \<Rightarrow> acc) 0 ps"

definition finalize :: "int \<Rightarrow> session \<Rightarrow> session" where
  "finalize now c =
     (let c1 = c\<lparr>endTime := Some now\<rparr>
      in c1\<lparr>duration :=
              round_div_1000 ((the (endTime c1) - startTime c1) - totalPauseTime (pauses c1))\<rparr>)"

text \<open>
  \<^verbatim>\<open>endSession\<close>. When \<^verbatim>\<open>saveSessions\<close> throws, the exception leaves
  \<^verbatim>\<open>endSession\<close> after the record has been finalized and put in the log and before
  \<^verbatim>\<open>resetTimer()\<close>: the finalized record stays current. The log holds the record
  as a value; in the script \<^verbatim>\<open>sessions[0]\<close> and \<^verbatim>\<open>currentSession\<close> are one
  object until \<^verbatim>\<open>resetTimer\<close> clears the variable, so that there a later write to
  \<^verbatim>\<open>currentSession\<close> (a pause or a resume after a write that threw) shows in the
  log as well.
\<close>

definition endSession :: "int \<Rightarrow> bool \<Rightarrow> state \<Rightarrow> outcome" where
  "endSession now isFinished s =
     (let s1 = cancelAnimationFrame (animationFrameId s)
                 (clearTimeout (timeoutId s) (s\<lparr>isRunning := False\<rparr>));
          r = (case currentSession s1 of
                 None \<Rightarrow> (None, s1)
               | Some c \<Rightarrow>
                   if endTime c = None then
                     (let c' = finalize now c
                      in saveSessions
                           (updateSessionLog
                              (log_effect (SessionLogged c')
                                 (s1\<lparr>currentSession := Some c',
                                     sessions := c' # sessions s1\<rparr>))))
                   else (None, s1))
      in case r of
           (Some e, s2) \<Rightarrow> (Some e, s2)
         | (None, s2) \<Rightarrow>
             (let s3 = resetTimer s2
              in (None, if isFinished then s3\<lparr>goalInput_disabled := False\<rparr> else s3)))"

text \<open>\<^verbatim>\<open>onTimerEnd\<close>, the callback of the completion timeout.\<close>

definition onTimerEnd :: "int \<Rightarrow> state \<Rightarrow> outcome" where
  "onTimerEnd now s =
     (case playSound s of
        (Some e, s1) \<Rightarrow> (Some e, s1)
      | (None, s1) \<Rightarrow>
          (case showSystemNotification s1 of
             (Some e, s2) \<Rightarrow> (Some e, s2)
           | (None, s2) \<Rightarrow>
               endSession now True (log_effect ModalShown (s2\<lparr>modal_visible := True\<rparr>))))"

text \<open>
  \<^verbatim>\<open>sessions.splice(index, 1)\<close>: a negative index counts from the end (clamped at 0),
  an index past the end removes nothing.
\<close>

definition splice1 :: "int \<Rightarrow> 'a list \<Rightarrow> 'a list" where
  "splice1 i xs =
     (let n = int (length xs);
          start = (if i < 0 then max (n + i) 0 else min i n)
      in take (nat start) xs @ drop (nat start + 1) xs)"

definition deleteSession :: "int \<Rightarrow> state \<Rightarrow> outcome" where
  "deleteSession index s =
     saveSessions (updateSessionLog (s\<lparr>sessions := splice1 index (sessions s)\<rparr>))"

definition clearAllSessions :: "bool \<Rightarrow> state \<Rightarrow> outcome" where
  "clearAllSessions confirmed s =
     (if confirmed then saveSessions (updateSessionLog (s\<lparr>sessions := []\<rparr>)) else (None, s))"

subsection \<open>Event listeners\<close>

text \<open>
  The reset button: \<^verbatim>\<open>if (currentSession) endSession(); resetTimer();\<close>. An exception
  out of \<^verbatim>\<open>endSession\<close> leaves the listener before its own \<^verbatim>\<open>resetTimer()\<close>.
\<close>

definition resetBtn_click :: "int \<Rightarrow> state \<Rightarrow> outcome" where
  "resetBtn_click now s =
     (if currentSession s \<noteq> None
      then (case endSession now False s of
              (Some e, s1) \<Rightarrow> (Some e, s1)
            | (None, s1) \<Rightarrow> (None, resetTimer s1))
      else (None, resetTimer s))"

definition endBtn_click :: "int \<Rightarrow> state \<Rightarrow> outcome" where
  "endBtn_click now s = endSession now False s"

definition closeModalBtn_click :: "state \<Rightarrow> state" where
  "closeModalBtn_click s =
     (let s1 = s\<lparr>modal_visible := False\<rparr>
      in if synth s1 then (log_effect SoundStop s1)\<lparr>synth := False\<rparr> else s1)"

definition testSoundBtn_click :: "state \<Rightarrow> outcome" where
  "testSoundBtn_click s =
     (if \<not> toneDefined (world s) then (Some ReferenceError, s)
      else playTestSound (log_effect ToneStart s))"

subsection \<open>Initialization and runs\<close>

text \<open>
  The state after the script has loaded: the initial values of the variables, the page
  of \<^verbatim>\<open>src/index.html\<close> (empty goal, 25 minutes selected), then
  \<^verbatim>\<open>loadSessions(); updateDisplay();\<close>. \<open>w\<close> is the environment and \<open>st\<close> what
  localStorage holds.
\<close>

definition initial :: "world \<Rightarrow> session list option \<Rightarrow> state" where
  "initial w st =
     updateDisplay
       (loadSessions
          \<lparr>targetTime = None, timeLeft = 25 * 60, isRunning = False,
           animationFrameId = None, timeoutId = None, cfgDuration = 25 * 60,
           currentSession = None, sessions = [], synth = False,
           goalInput_value = [], goalInput_disabled = False, goalInput_invalid = False,
           durationSelect_value = 25, durationSelect_disabled = False,
           modal_visible = False, pendingTimeouts = [], pendingFrames = [],
           nextHandle = 0, world = w, stored = st, effects = []\<rparr>)"

text \<open>The options of the duration select, in minutes.\<close>

definition duration_options :: "int list" where
  "duration_options = [5, 10, 15, 20, 25, 30, 45, 60, 90]"

text \<open>
  What can happen to the page: the user's actions, a pending timeout or animation frame
  coming due (with the clock reading of that moment), and the environment changing (the
  user answers the permission prompt, storage fills up).
\<close>

datatype event =
    StartClick int int
  | ResetClick int
  | EndClick int
  | SelectDuration int
  | TypeGoal js_string
  | TimeoutDue nat int
  | FrameDue nat int
  | DeleteClick int
  | ClearAllClick bool
  | CloseModalClick
  | TestSoundClick
  | WorldChange world

text \<open>
  The browser delivers an event only where it can arise: a disabled control takes no
  input, a select offers only its options, a timer fires only while it is pending, the
  log has one delete button per row, and a page load fixes whether Tone.js is there.
\<close>

fun enabled :: "event \<Rightarrow> state \<Rightarrow> bool" where
  "enabled (SelectDuration v) s = (\<not> durationSelect_disabled s \<and> v \<in> set duration_options)"
| "enabled (TypeGoal g) s = (\<not> goalInput_disabled s)"
| "enabled (TimeoutDue h now) s = (h \<in> set (map fst (pendingTimeouts s)))"
| "enabled (FrameDue h now) s = (h \<in> set (pendingFrames s))"
| "enabled (DeleteClick i) s = (0 \<le> i \<and> i < int (length (sessions s)))"
| "enabled (WorldChange w) s = (toneDefined w = toneDefined (world s))"
| "enabled _ s = True"

fun run_callback :: "callback \<Rightarrow> int \<Rightarrow> state \<Rightarrow> state" where
  "run_callback OnTimerEnd now s = snd (onTimerEnd now s)"
| "run_callback ClearGoalError now s = s\<lparr>goalInput_invalid := False\<rparr>"

fun step :: "event \<Rightarrow> state \<Rightarrow> state" where
  "step (StartClick tnow dnow) s = snd (startTimer tnow dnow s)"
| "step (ResetClick now) s = snd (resetBtn_click now s)"
| "step (EndClick now) s = snd (endBtn_click now s)"
| "step (SelectDuration v) s = changeDuration (s\<lparr>durationSelect_value := v\<rparr>)"
| "step (TypeGoal g) s = s\<lparr>goalInput_value := g\<rparr>"
| "step (TimeoutDue h now) s =
     (case find (\<lambda>t. fst t = h) (pendingTimeouts s) of
        None \<Rightarrow> s
      | Some (_, cb, _) \<Rightarrow>
          run_callback cb now
            (s\<lparr>pendingTimeouts := filter (\<lambda>t. fst t \<noteq> h) (pendingTimeouts s)\<rparr>))"
| "step (FrameDue h now) s =
     updateDisplayLoop now (s\<lparr>pendingFrames := filter (\<lambda>f. f \<noteq> h) (pendingFrames s)\<rparr>)"
| "step (DeleteClick i) s = snd (deleteSession i s)"
| "step (ClearAllClick c) s = snd (clearAllSessions c s)"
| "step CloseModalClick s = closeModalBtn_click s"
| "step TestSoundClick s = snd (testSoundBtn_click s)"
| "step (WorldChange w) s = s\<lparr>world := w\<rparr>"

inductive reachable :: "state \<Rightarrow> bool" where
  reachable_initial: "reachable (initial w st)"
| reachable_step: "reachable s \<Longrightarrow> enabled e s \<Longrightarrow> reachable (step e s)"

text \<open>
  A run from a given state: the events in order, each delivered only if it is enabled
  (\<open>None\<close> otherwise).
\<close>

fun run :: "event list \<Rightarrow> state \<Rightarrow> state option" where
  "run [] s = Some s"
| "run (e # es) s = (if enabled e s then run es (step e s) else None)"

section \<open>Notions used to state the properties\<close>



text \<open>What \<^verbatim>\<open>requestNotificationPermission\<close> adds to the log of calls.\<close>

definition permission_effects :: "world \<Rightarrow> effect list" where
  "permission_effects w =
     (if notificationSupported w \<and> notificationPermission w = Default
      then [PermissionRequest] else [])"

text \<open>
  The invariant of the page: what holds in every state a run can reach. The remaining
  time is never negative; the select shows one of its options; the two inputs are
  disabled exactly while a record is current; a running timer has a record and a
  deadline; while a record is current the goal is not blank and Tone.js is
  loaded; with no record the remaining time is the configured duration, which is the
  selected one; while the timer is not running the handles in \<^verbatim>\<open>timeoutId\<close> and
  \<^verbatim>\<open>animationFrameId\<close> are not pending; and both handles were issued before
  \<open>nextHandle\<close>.
\<close>

definition timer_inv :: "state \<Rightarrow> bool" where
  "timer_inv s =
     (0 \<le> timeLeft s \<and>
      durationSelect_value s \<in> set duration_options \<and>
      (durationSelect_disabled s = (currentSession s \<noteq> None)) \<and>
      (goalInput_disabled s = (currentSession s \<noteq> None)) \<and>
      (isRunning s \<longrightarrow> currentSession s \<noteq> None \<and> targetTime s \<noteq> None) \<and>
      (currentSession s \<noteq> None \<longrightarrow>
           js_trim (goalInput_value s) \<noteq> [] \<and> toneDefined (world s)) \<and>
      (currentSession s = None \<longrightarrow>
           timeLeft s = cfgDuration s \<and> cfgDuration s = durationSelect_value s * 60) \<and>
      (\<not> isRunning s \<longrightarrow>
           (\<forall>t \<in> set (pendingTimeouts s). Some (fst t) \<noteq> timeoutId s) \<and>
           (\<forall>f \<in> set (pendingFrames s). Some f \<noteq> animationFrameId s)) \<and>
      (\<forall>h. timeoutId s = Some h \<longrightarrow> h < nextHandle s) \<and>
      (\<forall>h. animationFrameId s = Some h \<longrightarrow> h < nextHandle s))"

section \<open>Example runs\<close>

text \<open>
  A page where every collaborator works, and one run on it: the user types the goal
  \<^verbatim>\<open>Write\<close>, starts at time 0, a frame comes due at 10 s, the user pauses at 10 s and
  resumes at 15 s.
\<close>

definition demo_world :: world where
  "demo_world = \<lparr>toneDefined = True, soundRaises = False, notificationSupported = True,
                  notificationPermission = Granted, notificationRaises = False,
                  storageAvailable = True, storageWriteRaises = False\<rparr>"

definition demo_goal :: js_string where
  "demo_goal = [87, 114, 105, 116, 101]"

definition demo_record :: session where
  "demo_record = \<lparr>goal = demo_goal, startTime = 0, endTime = None, duration = 0, pauses = []\<rparr>"

definition demo_idle :: state where
  "demo_idle = step (TypeGoal demo_goal) (initial demo_world None)"

definition demo_running :: state where
  "demo_running = step (StartClick 0 0) demo_idle"

definition demo_ticked :: state where
  "demo_ticked = step (FrameDue 1 10000) demo_running"

definition demo_paused :: state where
  "demo_paused = step (StartClick 10000 10000) demo_ticked"

definition demo_resumed :: state where
  "demo_resumed = step (StartClick 15000 15000) demo_paused"

text \<open>The goal field holding only a space, a tab and a no-break space.\<close>

definition demo_blank :: state where
  "demo_blank = step (TypeGoal [32, 9, 160]) (initial demo_world None)"

text \<open>The running page of above where \<^verbatim>\<open>new Notification(...)\<close> throws.\<close>

definition raising_world :: world where
  "raising_world = demo_world\<lparr>notificationRaises := True\<rparr>"

definition demo_raising :: state where
  "demo_raising = demo_running\<lparr>world := raising_world\<rparr>"

text \<open>The paused page of above where the write of the log to localStorage throws.\<close>

definition quota_world :: world where
  "quota_world = demo_world\<lparr>storageWriteRaises := True\<rparr>"

definition demo_quota :: state where
  "demo_quota = demo_paused\<lparr>world := quota_world\<rparr>"

text \<open>A fresh page on which Tone.js has not loaded.\<close>

definition noTone_world :: world where
  "noTone_world = demo_world\<lparr>toneDefined := False\<rparr>"

definition demo_noTone :: state where
  "demo_noTone = initial noTone_world None"

text \<open>A page loaded with three logged sessions in localStorage.\<close>

definition demo_log :: "session list" where
  "demo_log =
     [\<lparr>goal = [65], startTime = 0, endTime = Some 60000, duration = 60, pauses = []\<rparr>,
      \<lparr>goal = [66], startTime = 100000, endTime = Some 130000, duration = 30, pauses = []\<rparr>,
      \<lparr>goal = [67], startTime = 200000, endTime = Some 215000, duration = 15, pauses = []\<rparr>]"

definition demo_loaded :: state where
  "demo_loaded = initial demo_world (Some demo_log)"

section \<open>The handlers, branch by branch\<close>

lemmas timer_defs = setTimeout_def clearTimeout_def requestAnimationFrame_def
  cancelAnimationFrame_def log_effect_def isLocalStorageAvailable_def
  updateSessionLog_def updateDisplay_def requestNotificationPermission_def

lemma resetTimer_eq:
  "resetTimer s =
     s\<lparr>isRunning := False,
       cfgDuration := durationSelect_value s * 60,
       timeLeft := durationSelect_value s * 60,
       currentSession := None,
       goalInput_value := [],
       goalInput_disabled := False,
       durationSelect_disabled := False,
       pendingTimeouts := filter (\<lambda>t. Some (fst t) \<noteq> timeoutId s) (pendingTimeouts s),
       pendingFrames := filter (\<lambda>f. Some f \<noteq> animationFrameId s) (pendingFrames s)\<rparr>"
  by (simp add: resetTimer_def timer_defs Let_def)

lemma resetTimer_log [simp]:
  "sessions (resetTimer s) = sessions s" "stored (resetTimer s) = stored s"
  "currentSession (resetTimer s) = None"
  by (simp_all add: resetTimer_eq)

lemma saveSessions_eq:
  "saveSessions s =
     (if storageAvailable (world s) \<and> storageWriteRaises (world s)
      then (Some QuotaExceededError, s)
      else (None, s\<lparr>stored := (if storageAvailable (world s) then Some (sessions s) else stored s),
                    effects := effects s @
                      (if storageAvailable (world s) then [StorageWrite (sessions s)] else [])\<rparr>))"
  by (simp add: saveSessions_def isLocalStorageAvailable_def log_effect_def)

lemma endSession_active:
  assumes "currentSession s = Some c" "endTime c = None"
    and "\<not> (storageAvailable (world s) \<and> storageWriteRaises (world s))"
  shows "endSession now f s =
     (None,
      s\<lparr>isRunning := False,
        cfgDuration := durationSelect_value s * 60,
        timeLeft := durationSelect_value s * 60,
        currentSession := None,
        sessions := finalize now c # sessions s,
        goalInput_value := [],
        goalInput_disabled := False,
        durationSelect_disabled := False,
        pendingTimeouts := filter (\<lambda>t. Some (fst t) \<noteq> timeoutId s) (pendingTimeouts s),
        pendingFrames := filter (\<lambda>f. Some f \<noteq> animationFrameId s) (pendingFrames s),
        stored := (if storageAvailable (world s)
                   then Some (finalize now c # sessions s) else stored s),
        effects := effects s @ SessionLogged (finalize now c) #
                   (if storageAvailable (world s)
                    then [StorageWrite (finalize now c # sessions s)] else [])\<rparr>)"
  using assms
  by (simp add: endSession_def resetTimer_eq saveSessions_eq clearTimeout_def
      cancelAnimationFrame_def updateSessionLog_def log_effect_def Let_def)

lemma endSession_raises:
  assumes "currentSession s = Some c" "endTime c = None"
    and "storageAvailable (world s)" "storageWriteRaises (world s)"
  shows "endSession now f s =
     (Some QuotaExceededError,
      s\<lparr>isRunning := False,
        currentSession := Some (finalize now c),
        sessions := finalize now c # sessions s,
        pendingTimeouts := filter (\<lambda>t. Some (fst t) \<noteq> timeoutId s) (pendingTimeouts s),
        pendingFrames := filter (\<lambda>f. Some f \<noteq> animationFrameId s) (pendingFrames s),
        effects := effects s @ [SessionLogged (finalize now c)]\<rparr>)"
  using assms
  by (simp add: endSession_def saveSessions_eq clearTimeout_def
      cancelAnimationFrame_def updateSessionLog_def log_effect_def Let_def)

lemma endSession_inactive:
  assumes "currentSession s = None \<or> (\<exists>c. currentSession s = Some c \<and> endTime c \<noteq> None)"
  shows "endSession now f s = (None, resetTimer s)"
  using assms
  by (auto simp add: endSession_def resetTimer_eq clearTimeout_def cancelAnimationFrame_def
      Let_def)

lemma finalize_endTime [simp]: "endTime (finalize now c) = Some now"
  by (simp add: finalize_def Let_def)

lemma endSession_sessions:
  assumes "currentSession s = Some c" "endTime c = None"
  shows "sessions (snd (endSession now f s)) = finalize now c # sessions s"
    "currentSession (snd (endSession now f s)) =
       (if fst (endSession now f s) = None then None else Some (finalize now c))"
    "fst (endSession now f s) =
       (if storageAvailable (world s) \<and> storageWriteRaises (world s)
        then Some QuotaExceededError else None)"
proof -
  have "sessions (snd (endSession now f s)) = finalize now c # sessions s
      \<and> currentSession (snd (endSession now f s)) =
         (if fst (endSession now f s) = None then None else Some (finalize now c))
      \<and> fst (endSession now f s) =
         (if storageAvailable (world s) \<and> storageWriteRaises (world s)
          then Some QuotaExceededError else None)"
  proof (cases "storageAvailable (world s) \<and> storageWriteRaises (world s)")
    case True
    then show ?thesis using endSession_raises[OF assms, of now f] by simp
  next
    case False
    then show ?thesis using endSession_active[OF assms False, of now f] by simp
  qed
  then show "sessions (snd (endSession now f s)) = finalize now c # sessions s"
    "currentSession (snd (endSession now f s)) =
       (if fst (endSession now f s) = None then None else Some (finalize now c))"
    "fst (endSession now f s) =
       (if storageAvailable (world s) \<and> storageWriteRaises (world s)
        then Some QuotaExceededError else None)"
    by simp_all
qed

lemma endSession_closed:
  "currentSession (snd (endSession now f s)) = None
   \<or> (\<exists>c. currentSession (snd (endSession now f s)) = Some c \<and> endTime c \<noteq> None)"
proof (cases "currentSession s = None \<or> (\<exists>c. currentSession s = Some c \<and> endTime c \<noteq> None)")
  case True
  then show ?thesis by (simp add: endSession_inactive)
next
  case False
  then obtain c where c: "currentSession s = Some c" "endTime c = None" by auto
  show ?thesis using endSession_sessions(2)[OF c, of now f] by simp
qed

lemma onTimerEnd_sessions_inactive:
  assumes "currentSession s = None \<or> (\<exists>c. currentSession s = Some c \<and> endTime c \<noteq> None)"
  shows "sessions (snd (onTimerEnd now s)) = sessions s"
    "stored (snd (onTimerEnd now s)) = stored s"
  using assms
  by (auto simp add: onTimerEnd_def playSound_def showSystemNotification_def log_effect_def
      endSession_inactive)

lemma startTimer_noTone:
  "\<not> toneDefined (world s) \<Longrightarrow> startTimer tnow dnow s = (Some ReferenceError, s)"
  by (simp add: startTimer_def)

lemma startTimer_blank:
  assumes "toneDefined (world s)" "\<not> isRunning s" "js_trim (goalInput_value s) = []"
  shows "startTimer tnow dnow s =
     (None, s\<lparr>goalInput_invalid := True,
              pendingTimeouts := pendingTimeouts s @ [(nextHandle s, ClearGoalError, 2000)],
              nextHandle := nextHandle s + 1,
              effects := effects s @ ToneStart # permission_effects (world s)\<rparr>)"
  using assms by (simp add: startTimer_def timer_defs permission_effects_def Let_def)

lemma startTimer_start:
  assumes "toneDefined (world s)" "\<not> isRunning s" "js_trim (goalInput_value s) \<noteq> []"
  shows "startTimer tnow dnow s =
     (None, s\<lparr>isRunning := True,
              targetTime := Some (tnow + timeLeft s * 1000),
              timeoutId := Some (nextHandle s),
              animationFrameId := Some (nextHandle s + 1),
              durationSelect_disabled := True,
              goalInput_disabled := True,
              currentSession :=
                (case currentSession s of
                   None \<Rightarrow> Some \<lparr>goal = goalInput_value s, startTime = dnow,
                                  endTime = None, duration = 0, pauses = []\<rparr>
                 | Some c \<Rightarrow> Some (resumeLastPause dnow c)),
              pendingTimeouts :=
                pendingTimeouts s @ [(nextHandle s, OnTimerEnd, timeLeft s * 1000)],
              pendingFrames := pendingFrames s @ [nextHandle s + 1],
              nextHandle := nextHandle s + 2,
              effects := effects s @ ToneStart # permission_effects (world s)\<rparr>)"
  using assms
  by (simp add: startTimer_def timer_defs permission_effects_def Let_def split: option.splits)

lemma startTimer_pause:
  assumes "toneDefined (world s)" "isRunning s" "currentSession s = Some c"
  shows "startTimer tnow dnow s =
     (None, s\<lparr>isRunning := False,
              currentSession :=
                Some (c\<lparr>pauses := pauses c @ [\<lparr>pauseTime = dnow, resumeTime = None\<rparr>]\<rparr>),
              pendingTimeouts := filter (\<lambda>t. Some (fst t) \<noteq> timeoutId s) (pendingTimeouts s),
              pendingFrames := filter (\<lambda>f. Some f \<noteq> animationFrameId s) (pendingFrames s),
              effects := effects s @ ToneStart # permission_effects (world s)\<rparr>)"
  using assms
  by (simp add: startTimer_def timer_defs permission_effects_def Let_def)

lemma resumeLastPause_endTime: "endTime (resumeLastPause dnow c) = endTime c"
  by (simp add: resumeLastPause_def Let_def)

lemma resumeLastPause_open:
  "resumeLastPause d2 (c\<lparr>pauses := ps @ [\<lparr>pauseTime = d1, resumeTime = None\<rparr>]\<rparr>) =
     c\<lparr>pauses := ps @ [\<lparr>pauseTime = d1, resumeTime = Some d2\<rparr>]\<rparr>"
  by (simp add: resumeLastPause_def Let_def)

subsection \<open>Arithmetic of the duration\<close>




lemma splice1_valid:
  assumes "0 \<le> i" "i < int (length xs)"
  shows "splice1 i xs = take (nat i) xs @ drop (Suc (nat i)) xs"
  using assms by (simp add: splice1_def Let_def min_def)


section \<open>The invariant holds in every reachable state\<close>

lemma timer_invI:
  assumes "0 \<le> timeLeft s"
    "durationSelect_value s \<in> set duration_options"
    "durationSelect_disabled s = (currentSession s \<noteq> None)"
    "goalInput_disabled s = (currentSession s \<noteq> None)"
    "isRunning s \<Longrightarrow> currentSession s \<noteq> None \<and> targetTime s \<noteq> None"
    "currentSession s \<noteq> None \<Longrightarrow>
           js_trim (goalInput_value s) \<noteq> [] \<and> toneDefined (world s)"
    "currentSession s = None \<Longrightarrow>
           timeLeft s = cfgDuration s \<and> cfgDuration s = durationSelect_value s * 60"
    "\<And>t. \<not> isRunning s \<Longrightarrow> t \<in> set (pendingTimeouts s) \<Longrightarrow> Some (fst t) \<noteq> timeoutId s"
    "\<And>f. \<not> isRunning s \<Longrightarrow> f \<in> set (pendingFrames s) \<Longrightarrow> Some f \<noteq> animationFrameId s"
    "\<And>h. timeoutId s = Some h \<Longrightarrow> h < nextHandle s"
    "\<And>h. animationFrameId s = Some h \<Longrightarrow> h < nextHandle s"
  shows "timer_inv s"
  using assms unfolding timer_inv_def by blast

lemma timer_invD:
  assumes "timer_inv s"
  shows "0 \<le> timeLeft s"
    "durationSelect_value s \<in> set duration_options"
    "durationSelect_disabled s = (currentSession s \<noteq> None)"
    "goalInput_disabled s = (currentSession s \<noteq> None)"
    "isRunning s \<Longrightarrow> currentSession s \<noteq> None"
    "isRunning s \<Longrightarrow> targetTime s \<noteq> None"
    "currentSession s \<noteq> None \<Longrightarrow> durationSelect_disabled s \<and> goalInput_disabled s"
    "\<And>c. currentSession s = Some c \<Longrightarrow> js_trim (goalInput_value s) \<noteq> []"
    "\<And>c. currentSession s = Some c \<Longrightarrow> toneDefined (world s)"
    "currentSession s = None \<Longrightarrow> timeLeft s = cfgDuration s"
    "currentSession s = None \<Longrightarrow> cfgDuration s = durationSelect_value s * 60"
    "\<And>t. \<not> isRunning s \<Longrightarrow> t \<in> set (pendingTimeouts s) \<Longrightarrow> Some (fst t) \<noteq> timeoutId s"
    "\<And>f. \<not> isRunning s \<Longrightarrow> f \<in> set (pendingFrames s) \<Longrightarrow> Some f \<noteq> animationFrameId s"
    "\<And>h. timeoutId s = Some h \<Longrightarrow> h < nextHandle s"
    "\<And>h. animationFrameId s = Some h \<Longrightarrow> h < nextHandle s"
  using assms unfolding timer_inv_def by blast+

lemma timer_invD2:
  assumes "timer_inv s"
  shows "\<And>h. Some h = timeoutId s \<Longrightarrow> h < nextHandle s"
    "\<And>h. Some h = animationFrameId s \<Longrightarrow> h < nextHandle s"
    "\<And>a cb dl. \<not> isRunning s \<Longrightarrow> (a, cb, dl) \<in> set (pendingTimeouts s) \<Longrightarrow>
        Some a \<noteq> timeoutId s"
  using timer_invD(12,14,15)[OF assms] by (metis, metis, fastforce)

lemma inv_running:
  assumes "timer_inv s" "isRunning s"
  shows "\<exists>c t. currentSession s = Some c \<and> targetTime s = Some t"
  using assms by (auto simp: timer_inv_def)

lemma option_nonneg: "v \<in> set duration_options \<Longrightarrow> 0 \<le> v * 60"
  by (auto simp: duration_options_def)

lemma timer_inv_frame [simp]:
  "timer_inv (s\<lparr>effects := e\<rparr>) = timer_inv s"
  "timer_inv (s\<lparr>synth := b\<rparr>) = timer_inv s"
  "timer_inv (s\<lparr>modal_visible := b\<rparr>) = timer_inv s"
  "timer_inv (s\<lparr>stored := st\<rparr>) = timer_inv s"
  "timer_inv (s\<lparr>sessions := xs\<rparr>) = timer_inv s"
  "timer_inv (s\<lparr>goalInput_invalid := b\<rparr>) = timer_inv s"
  by (simp_all add: timer_inv_def)

lemma inv_log_effect [simp]: "timer_inv (log_effect e s) = timer_inv s"
  by (simp add: log_effect_def)

lemma inv_initial: "timer_inv (initial w st)"
  by (simp add: timer_inv_def initial_def loadSessions_def timer_defs duration_options_def
      split: option.splits)

lemma inv_resetTimer:
  assumes "durationSelect_value s \<in> set duration_options"
    "\<forall>h. timeoutId s = Some h \<longrightarrow> h < nextHandle s"
    "\<forall>h. animationFrameId s = Some h \<longrightarrow> h < nextHandle s"
  shows "timer_inv (resetTimer s)"
  using assms by (simp add: timer_inv_def resetTimer_eq option_nonneg)

lemma inv_changeDuration:
  assumes "timer_inv s" "\<not> durationSelect_disabled s" "v \<in> set duration_options"
  shows "timer_inv (changeDuration (s\<lparr>durationSelect_value := v\<rparr>))"
  using assms
  by (clarsimp simp add: timer_inv_def changeDuration_def updateDisplay_def option_nonneg Let_def)

lemma inv_saveSessions [simp]: "timer_inv (snd (saveSessions s)) = timer_inv s"
  by (simp add: saveSessions_eq)

lemma inv_endSession:
  assumes inv: "timer_inv s"
  shows "timer_inv (snd (endSession now f s))"
proof (cases "currentSession s = None \<or> (\<exists>c. currentSession s = Some c \<and> endTime c \<noteq> None)")
  case True
  have "timer_inv (resetTimer s)"
    by (rule inv_resetTimer) (simp_all add: timer_invD(2,14,15)[OF inv])
  then show ?thesis using True by (simp add: endSession_inactive)
next
  case False
  then obtain c where c: "currentSession s = Some c" "endTime c = None" by auto
  show ?thesis
  proof (cases "storageAvailable (world s) \<and> storageWriteRaises (world s)")
    case ok: False
    let ?s' = "s\<lparr>sessions := finalize now c # sessions s,
         stored := (if storageAvailable (world s)
                    then Some (finalize now c # sessions s) else stored s),
         effects := effects s @ SessionLogged (finalize now c) #
                    (if storageAvailable (world s)
                     then [StorageWrite (finalize now c # sessions s)] else [])\<rparr>"
    have "timer_inv (resetTimer ?s')"
      by (rule inv_resetTimer) (simp_all add: timer_invD(2,14,15)[OF inv])
    moreover have "snd (endSession now f s) = resetTimer ?s'"
      by (simp add: endSession_active[OF c ok] resetTimer_eq)
    ultimately show ?thesis by simp
  next
    case True
    note d = timer_invD[OF inv]
    show ?thesis
      unfolding endSession_raises[OF c conjunct1[OF True] conjunct2[OF True]] snd_conv
      by (rule timer_invI) (auto simp add: d c)
  qed
qed

lemma inv_updateDisplayLoop:
  assumes "timer_inv s"
  shows "timer_inv (updateDisplayLoop now s)"
proof (cases "isRunning s")
  case False
  then show ?thesis using assms by (simp add: updateDisplayLoop_def)
next
  case True
  with assms obtain c t where "currentSession s = Some c" "targetTime s = Some t"
    using inv_running by blast
  with True assms show ?thesis
    by (simp add: timer_inv_def updateDisplayLoop_def timer_defs Let_def less_SucI)
qed

lemma inv_startTimer_pause:
  assumes inv: "timer_inv s" and tone: "toneDefined (world s)" and run: "isRunning s"
  shows "timer_inv (snd (startTimer tnow dnow s))"
proof -
  from inv run obtain c where c: "currentSession s = Some c"
    using timer_invD(5) by blast
  note d = timer_invD[OF inv]
  show ?thesis
    unfolding startTimer_pause[OF tone run c] snd_conv
    by (rule timer_invI) (simp_all add: d c)
qed

lemma inv_startTimer_blank:
  assumes inv: "timer_inv s" and tone: "toneDefined (world s)" and idle: "\<not> isRunning s"
    and blank: "js_trim (goalInput_value s) = []"
  shows "timer_inv (snd (startTimer tnow dnow s))"
proof -
  note d = timer_invD[OF inv] and d2 = timer_invD2[OF inv]
  show ?thesis
    unfolding startTimer_blank[OF tone idle blank] snd_conv
    by (rule timer_invI)
      (auto simp add: d idle less_SucI dest: d2(1,2) d2(3)[OF idle] d(14))
qed

lemma inv_startTimer_start:
  assumes inv: "timer_inv s" and tone: "toneDefined (world s)" and idle: "\<not> isRunning s"
    and goal: "js_trim (goalInput_value s) \<noteq> []"
  shows "timer_inv (snd (startTimer tnow dnow s))"
proof -
  note d = timer_invD[OF inv] and d2 = timer_invD2[OF inv]
  show ?thesis
    unfolding startTimer_start[OF tone idle goal] snd_conv
    by (rule timer_invI)
      (auto simp add: d idle tone goal less_SucI resumeLastPause_endTime
        split: option.splits dest: d2(1,2) d2(3)[OF idle] d(14,15))
qed

lemma inv_startTimer:
  assumes inv: "timer_inv s"
  shows "timer_inv (snd (startTimer tnow dnow s))"
proof (cases "toneDefined (world s)")
  case False
  then show ?thesis using inv by (simp add: startTimer_noTone)
next
  case tone: True
  show ?thesis
  proof (cases "isRunning s")
    case True
    then show ?thesis using inv tone by (rule_tac inv_startTimer_pause)
  next
    case idle: False
    show ?thesis
    proof (cases "js_trim (goalInput_value s) = []")
      case True
      then show ?thesis using inv tone idle by (rule_tac inv_startTimer_blank)
    next
      case False
      then show ?thesis using inv tone idle by (rule_tac inv_startTimer_start)
    qed
  qed
qed

lemma inv_drop_timeouts:
  assumes "timer_inv s" "set ts \<subseteq> set (pendingTimeouts s)"
  shows "timer_inv (s\<lparr>pendingTimeouts := ts\<rparr>)"
  using assms(2) timer_invD[OF assms(1)]
  by (intro timer_invI) (auto simp del: not_None_eq)

lemma inv_drop_frames:
  assumes "timer_inv s" "set fs \<subseteq> set (pendingFrames s)"
  shows "timer_inv (s\<lparr>pendingFrames := fs\<rparr>)"
  using assms(2) timer_invD[OF assms(1)]
  by (intro timer_invI) (auto simp del: not_None_eq)

lemma inv_playSound: "timer_inv s \<Longrightarrow> timer_inv (snd (playSound s))"
  by (simp add: playSound_def)

lemma inv_showSystemNotification:
  "timer_inv s \<Longrightarrow> timer_inv (snd (showSystemNotification s))"
  by (simp add: showSystemNotification_def)

lemma inv_onTimerEnd: "timer_inv s \<Longrightarrow> timer_inv (snd (onTimerEnd now s))"
  using inv_playSound[of s] inv_showSystemNotification[of "snd (playSound s)"]
  by (auto simp add: onTimerEnd_def inv_endSession split: prod.splits option.splits)

lemma inv_resetBtn_click:
  assumes inv: "timer_inv s"
  shows "timer_inv (snd (resetBtn_click now s))"
proof (cases "currentSession s = None")
  case True
  have "timer_inv (resetTimer s)"
    by (rule inv_resetTimer) (simp_all add: timer_invD(2,14,15)[OF inv])
  then show ?thesis using True by (simp add: resetBtn_click_def)
next
  case False
  obtain e s1 where p: "endSession now False s = (e, s1)"
    by (cases "endSession now False s")
  have e: "timer_inv s1"
    using inv_endSession[OF inv, of now False] p by simp
  have r: "timer_inv (resetTimer s1)"
    by (rule inv_resetTimer) (simp_all add: timer_invD(2,14,15)[OF e])
  show ?thesis
    using False e r p by (cases e) (simp_all add: resetBtn_click_def)
qed

lemma inv_typeGoal:
  assumes "timer_inv s" "\<not> goalInput_disabled s"
  shows "timer_inv (s\<lparr>goalInput_value := g\<rparr>)"
  using assms(2) timer_invD[OF assms(1)]
  by (intro timer_invI) (auto simp del: not_None_eq)

lemma inv_worldChange:
  assumes "timer_inv s" "toneDefined w = toneDefined (world s)"
  shows "timer_inv (s\<lparr>world := w\<rparr>)"
  using assms(2) timer_invD[OF assms(1)]
  by (intro timer_invI) (auto simp del: not_None_eq)

lemma inv_step:
  assumes inv: "timer_inv s" and en: "enabled e s"
  shows "timer_inv (step e s)"
proof (cases e)
  case (StartClick tnow dnow)
  then show ?thesis using inv by (simp add: inv_startTimer)
next
  case (ResetClick now)
  then show ?thesis using inv by (simp add: inv_resetBtn_click)
next
  case (EndClick now)
  then show ?thesis using inv by (simp add: endBtn_click_def inv_endSession)
next
  case (SelectDuration v)
  then show ?thesis using inv en by (simp add: inv_changeDuration)
next
  case (TypeGoal g)
  then show ?thesis using inv en by (simp add: inv_typeGoal)
next
  case (TimeoutDue h now)
  have "timer_inv (s\<lparr>pendingTimeouts := filter (\<lambda>t. fst t \<noteq> h) (pendingTimeouts s)\<rparr>)"
    using inv by (rule inv_drop_timeouts) auto
  then have "timer_inv (run_callback cb now
       (s\<lparr>pendingTimeouts := filter (\<lambda>t. fst t \<noteq> h) (pendingTimeouts s)\<rparr>))" for cb
    by (cases cb) (simp_all add: inv_onTimerEnd)
  then show ?thesis using inv TimeoutDue by (simp split: option.splits)
next
  case (FrameDue h now)
  have "timer_inv (s\<lparr>pendingFrames := filter (\<lambda>f. f \<noteq> h) (pendingFrames s)\<rparr>)"
    using inv by (rule inv_drop_frames) auto
  then show ?thesis using FrameDue by (simp add: inv_updateDisplayLoop)
next
  case (DeleteClick i)
  then show ?thesis using inv by (simp add: deleteSession_def updateSessionLog_def)
next
  case (ClearAllClick c)
  then show ?thesis using inv by (simp add: clearAllSessions_def updateSessionLog_def)
next
  case CloseModalClick
  then show ?thesis using inv by (simp add: closeModalBtn_click_def Let_def)
next
  case TestSoundClick
  then show ?thesis using inv by (simp add: testSoundBtn_click_def playTestSound_def)
next
  case (WorldChange w)
  then show ?thesis using inv en by (simp add: inv_worldChange)
qed

lemma reachable_inv: "reachable s \<Longrightarrow> timer_inv s"
  by (induction rule: reachable.induct) (simp_all add: inv_initial inv_step)

lemma run_reachable: "reachable s \<Longrightarrow> run es s = Some s' \<Longrightarrow> reachable s'"
  by (induction es arbitrary: s) (auto intro: reachable_step split: if_splits)

lemma resetTimer_idle:
  assumes inv: "timer_inv s" and none: "currentSession s = None"
  shows "resetTimer s = s\<lparr>goalInput_value := []\<rparr>"
proof -
  note d = timer_invD[OF inv]
  have idle: "\<not> isRunning s" using d(5) none by auto
  have 1: "filter (\<lambda>t. Some (fst t) \<noteq> timeoutId s) (pendingTimeouts s) = pendingTimeouts s"
    using d(12)[OF idle] by (simp add: filter_id_conv)
  have 2: "filter (\<lambda>f. Some f \<noteq> animationFrameId s) (pendingFrames s) = pendingFrames s"
    using d(13)[OF idle] by (simp add: filter_id_conv)
  show ?thesis
    unfolding resetTimer_eq 1 2
    using idle none d(3,4) d(10,11)[OF none]
    by (intro state.equality) simp_all
qed


section \<open>The example runs, evaluated\<close>

lemma demo_world_fields:
  "toneDefined demo_world" "\<not> soundRaises demo_world" "notificationSupported demo_world"
  "notificationPermission demo_world = Granted" "\<not> notificationRaises demo_world"
  "storageAvailable demo_world" "\<not> storageWriteRaises demo_world"
  by (simp_all add: demo_world_def)

lemma demo_goal_trim: "js_trim demo_goal \<noteq> []"
  by (simp add: js_trim_def demo_goal_def js_whitespace_def)

lemma demo_record_open: "endTime demo_record = None"
  by (simp add: demo_record_def)

lemma initial_eq:
  "initial demo_world None =
     \<lparr>targetTime = None, timeLeft = 1500, isRunning = False,
      animationFrameId = None, timeoutId = None, cfgDuration = 1500,
      currentSession = None, sessions = [], synth = False,
      goalInput_value = [], goalInput_disabled = False, goalInput_invalid = False,
      durationSelect_value = 25, durationSelect_disabled = False,
      modal_visible = False, pendingTimeouts = [], pendingFrames = [],
      nextHandle = 0, world = demo_world, stored = None, effects = []\<rparr>"
  by (simp add: initial_def loadSessions_def updateDisplay_def updateSessionLog_def
      isLocalStorageAvailable_def)

lemma demo_idle_eq:
  "demo_idle =
     \<lparr>targetTime = None, timeLeft = 1500, isRunning = False,
      animationFrameId = None, timeoutId = None, cfgDuration = 1500,
      currentSession = None, sessions = [], synth = False,
      goalInput_value = demo_goal, goalInput_disabled = False, goalInput_invalid = False,
      durationSelect_value = 25, durationSelect_disabled = False,
      modal_visible = False, pendingTimeouts = [], pendingFrames = [],
      nextHandle = 0, world = demo_world, stored = None, effects = []\<rparr>"
  by (simp add: demo_idle_def initial_eq)

lemma demo_running_eq:
  "demo_running =
     \<lparr>targetTime = Some 1500000, timeLeft = 1500, isRunning = True,
      animationFrameId = Some 1, timeoutId = Some 0, cfgDuration = 1500,
      currentSession = Some demo_record, sessions = [], synth = False,
      goalInput_value = demo_goal, goalInput_disabled = True, goalInput_invalid = False,
      durationSelect_value = 25, durationSelect_disabled = True,
      modal_visible = False, pendingTimeouts = [(0, OnTimerEnd, 1500000)], pendingFrames = [1],
      nextHandle = 2, world = demo_world, stored = None, effects = [ToneStart]\<rparr>"
  unfolding demo_running_def step.simps
  by (subst startTimer_start)
     (simp_all add: demo_idle_eq demo_goal_trim demo_world_def permission_effects_def
        demo_record_def)

lemma demo_ticked_eq:
  "demo_ticked =
     \<lparr>targetTime = Some 1500000, timeLeft = 1490, isRunning = True,
      animationFrameId = Some 2, timeoutId = Some 0, cfgDuration = 1500,
      currentSession = Some demo_record, sessions = [], synth = False,
      goalInput_value = demo_goal, goalInput_disabled = True, goalInput_invalid = False,
      durationSelect_value = 25, durationSelect_disabled = True,
      modal_visible = False, pendingTimeouts = [(0, OnTimerEnd, 1500000)], pendingFrames = [2],
      nextHandle = 3, world = demo_world, stored = None, effects = [ToneStart]\<rparr>"
  by (simp add: demo_ticked_def demo_running_eq updateDisplayLoop_def updateDisplay_def
      requestAnimationFrame_def round_div_1000_def Let_def)

lemma demo_paused_eq:
  "demo_paused =
     \<lparr>targetTime = Some 1500000, timeLeft = 1490, isRunning = False,
      animationFrameId = Some 2, timeoutId = Some 0, cfgDuration = 1500,
      currentSession =
        Some (demo_record\<lparr>pauses := [\<lparr>pauseTime = 10000, resumeTime = None\<rparr>]\<rparr>),
      sessions = [], synth = False,
      goalInput_value = demo_goal, goalInput_disabled = True, goalInput_invalid = False,
      durationSelect_value = 25, durationSelect_disabled = True,
      modal_visible = False, pendingTimeouts = [], pendingFrames = [],
      nextHandle = 3, world = demo_world, stored = None, effects = [ToneStart, ToneStart]\<rparr>"
  unfolding demo_paused_def step.simps
  by (subst startTimer_pause[where c = demo_record])
     (simp_all add: demo_ticked_eq demo_world_def permission_effects_def demo_record_def)


lemma reachable_demo:
  "reachable demo_idle" "reachable demo_running" "reachable demo_ticked"
  "reachable demo_paused" "reachable demo_resumed"
proof -
  have "reachable (initial demo_world None)" by (rule reachable_initial)
  then show 1: "reachable demo_idle"
    unfolding demo_idle_def by (rule reachable_step) (simp add: initial_eq)
  then show 2: "reachable demo_running"
    unfolding demo_running_def by (rule reachable_step) simp
  then show 3: "reachable demo_ticked"
    unfolding demo_ticked_def by (rule reachable_step) (simp add: demo_running_eq)
  then show 4: "reachable demo_paused"
    unfolding demo_paused_def by (rule reachable_step) simp
  then show "reachable demo_resumed"
    unfolding demo_resumed_def by (rule reachable_step) simp
qed

lemma reachable_demo_raising: "reachable demo_raising"
proof -
  have "enabled (WorldChange raising_world) demo_running"
    by (simp add: demo_running_eq raising_world_def demo_world_def)
  with reachable_demo(2) have "reachable (step (WorldChange raising_world) demo_running)"
    by (rule reachable_step)
  then show ?thesis by (simp add: demo_raising_def)
qed

lemma reachable_demo_quota: "reachable demo_quota"
proof -
  have "enabled (WorldChange quota_world) demo_paused"
    by (simp add: demo_paused_eq quota_world_def demo_world_def)
  with reachable_demo(4) have "reachable (step (WorldChange quota_world) demo_paused)"
    by (rule reachable_step)
  then show ?thesis by (simp add: demo_quota_def)
qed

lemma reachable_demo_noTone: "reachable demo_noTone"
  unfolding demo_noTone_def by (rule reachable_initial)

lemma demo_noTone_eq:
  "demo_noTone =
     \<lparr>targetTime = None, timeLeft = 1500, isRunning = False,
      animationFrameId = None, timeoutId = None, cfgDuration = 1500,
      currentSession = None, sessions = [], synth = False,
      goalInput_value = [], goalInput_disabled = False, goalInput_invalid = False,
      durationSelect_value = 25, durationSelect_disabled = False,
      modal_visible = False, pendingTimeouts = [], pendingFrames = [],
      nextHandle = 0, world = noTone_world, stored = None, effects = []\<rparr>"
  by (simp add: demo_noTone_def initial_def loadSessions_def updateDisplay_def
      updateSessionLog_def isLocalStorageAvailable_def)

lemma demo_run:
  "run [TypeGoal demo_goal, StartClick 0 0, FrameDue 1 10000, StartClick 10000 10000,
        StartClick 15000 15000] (initial demo_world None) = Some demo_resumed"
proof -
  have "run [TypeGoal demo_goal, StartClick 0 0, FrameDue 1 10000, StartClick 10000 10000,
        StartClick 15000 15000] (initial demo_world None)
      = run [StartClick 0 0, FrameDue 1 10000, StartClick 10000 10000,
        StartClick 15000 15000] demo_idle"
    by (simp add: demo_idle_def initial_eq)
  also have "\<dots> = run [FrameDue 1 10000, StartClick 10000 10000, StartClick 15000 15000]
        demo_running"
    by (simp add: demo_running_def)
  also have "\<dots> = run [StartClick 10000 10000, StartClick 15000 15000] demo_ticked"
  proof -
    have "enabled (FrameDue 1 10000) demo_running" by (simp add: demo_running_eq)
    then show ?thesis by (simp add: demo_ticked_def)
  qed
  also have "\<dots> = run [StartClick 15000 15000] demo_paused"
    by (simp add: demo_paused_def)
  also have "\<dots> = Some demo_resumed"
    by (simp add: demo_resumed_def)
  finally show ?thesis .
qed


section \<open>The properties\<close>

subsection \<open>C1: a record is logged at most once\<close>

text \<open>
  Claim C1. Ending a session that has a record not yet finalized appends exactly that
  record, finalized, to the log; the record is then released, or, when the write to
  storage threw, stays current with its \<open>endTime\<close> set. Either way a second
  \<^verbatim>\<open>endSession\<close>, or the expiry callback \<^verbatim>\<open>onTimerEnd\<close> firing after the
  manual end, appends nothing and leaves the log, and so the finalized record's
  \<open>endTime\<close>, \<open>duration\<close> and \<open>pauses\<close>, as well as the stored copy, as they
  are. This holds in every world, whether or not the notifier of the second call raises.
  The guard of \<^verbatim>\<open>endSession\<close> does the same for any state \<open>s'\<close> whose current
  record already has its \<open>endTime\<close>: nothing is appended.
\<close>

theorem endSession_at_most_once:
  assumes "currentSession s = Some c" and "endTime c = None"
  shows "sessions (snd (endSession n1 f1 s)) = finalize n1 c # sessions s
       \<and> currentSession (snd (endSession n1 f1 s)) =
           (if fst (endSession n1 f1 s) = None then None else Some (finalize n1 c))
       \<and> fst (endSession n2 f2 (snd (endSession n1 f1 s))) = None
       \<and> sessions (snd (endSession n2 f2 (snd (endSession n1 f1 s))))
           = sessions (snd (endSession n1 f1 s))
       \<and> stored (snd (endSession n2 f2 (snd (endSession n1 f1 s))))
           = stored (snd (endSession n1 f1 s))
       \<and> sessions (snd (onTimerEnd n2 (snd (endSession n1 f1 s))))
           = sessions (snd (endSession n1 f1 s))
       \<and> stored (snd (onTimerEnd n2 (snd (endSession n1 f1 s))))
           = stored (snd (endSession n1 f1 s))
       \<and> (currentSession s' = Some c' \<and> endTime c' \<noteq> None \<longrightarrow>
            sessions (snd (endSession n2 f2 s')) = sessions s'
          \<and> stored (snd (endSession n2 f2 s')) = stored s')"
proof -
  define s1 where "s1 = snd (endSession n1 f1 s)"
  have closed: "currentSession s1 = None
      \<or> (\<exists>c. currentSession s1 = Some c \<and> endTime c \<noteq> None)"
    unfolding s1_def by (rule endSession_closed)
  have "endSession n2 f2 s1 = (None, resetTimer s1)"
    using closed by (rule endSession_inactive)
  moreover have "sessions (snd (onTimerEnd n2 s1)) = sessions s1"
    "stored (snd (onTimerEnd n2 s1)) = stored s1"
    using closed by (rule onTimerEnd_sessions_inactive)+
  moreover have "endSession n2 f2 s' = (None, resetTimer s')"
    if "currentSession s' = Some c' \<and> endTime c' \<noteq> None"
    using that by (intro endSession_inactive) simp
  ultimately show ?thesis
    using endSession_sessions(1,2)[OF assms, of n1 f1]
    by (simp add: s1_def)
qed

text \<open>
  On the example run: ending at 60 s, then ending again or letting the timer fire; and
  the same on the paused page whose storage write throws, where the first end leaves the
  finalized record current.
\<close>

theorem endSession_at_most_once_witness:
  "currentSession demo_running = Some demo_record \<and> endTime demo_record = None
   \<and> sessions (snd (endSession 60000 False demo_running)) = [finalize 60000 demo_record]
   \<and> sessions (snd (endSession 61000 False (snd (endSession 60000 False demo_running))))
        = [finalize 60000 demo_record]
   \<and> sessions (snd (onTimerEnd 61000 (snd (endSession 60000 False demo_running))))
        = [finalize 60000 demo_record]
   \<and> endTime (finalize 60000 demo_record) \<noteq> None
   \<and> sessions (snd (endSession 61000 False
         (demo_running\<lparr>currentSession := Some (finalize 60000 demo_record)\<rparr>))) = []
   \<and> fst (endSession 20000 False demo_quota) = Some QuotaExceededError
   \<and> length (sessions (snd (endSession 20000 False demo_quota))) = 1
   \<and> length (sessions (snd (endSession 21000 False (snd (endSession 20000 False demo_quota)))))
        = 1"
proof -
  have h: "currentSession demo_running = Some demo_record"
    by (simp add: demo_running_eq)
  have s0: "sessions demo_running = []"
    by (simp add: demo_running_eq)
  have f: "endTime (finalize 60000 demo_record) \<noteq> None"
    by simp
  have q: "currentSession demo_quota =
      Some (demo_record\<lparr>pauses := [\<lparr>pauseTime = 10000, resumeTime = None\<rparr>]\<rparr>)"
    "sessions demo_quota = []"
    "storageAvailable (world demo_quota)" "storageWriteRaises (world demo_quota)"
    by (simp_all add: demo_quota_def demo_paused_eq quota_world_def demo_world_def)
  have qo: "endTime (demo_record\<lparr>pauses := [\<lparr>pauseTime = 10000, resumeTime = None\<rparr>]\<rparr>) = None"
    by (simp add: demo_record_def)
  have qe: "fst (endSession 20000 False demo_quota) = Some QuotaExceededError"
    using endSession_raises[OF q(1) qo q(3,4), of 20000 False] by simp
  show ?thesis
    using endSession_at_most_once[OF h demo_record_open, where ?n1.0 = 60000 and ?f1.0 = False
        and ?n2.0 = 61000 and ?f2.0 = False
        and s' = "demo_running\<lparr>currentSession := Some (finalize 60000 demo_record)\<rparr>"
        and c' = "finalize 60000 demo_record"]
      endSession_at_most_once[OF q(1) qo, where ?n1.0 = 20000 and ?f1.0 = False
        and ?n2.0 = 21000 and ?f2.0 = False and s' = demo_quota
        and c' = demo_record]
      h s0 f demo_record_open q(2) qe
    by simp
qed

subsection \<open>C2: the stored duration is the rounded net active time\<close>



subsection \<open>C3: the remaining time is recomputed from the deadline\<close>

text \<open>
  Claim C3. In every reachable state: starting or resuming (the timer not running, Tone.js
  loaded, the goal not blank) sets the timer running with \<^verbatim>\<open>targetTime\<close> equal to the
  clock reading plus \<^verbatim>\<open>timeLeft\<close> seconds (in milliseconds) and leaves
  \<^verbatim>\<open>timeLeft\<close> as it is; and while the timer runs the deadline is set, a
  reconciliation tick keeps it, and after the tick \<^verbatim>\<open>timeLeft\<close> is
  \<open>max 0 (round ((targetTime - now) / 1000))\<close>, a function of the deadline and the
  clock alone, whatever \<^verbatim>\<open>timeLeft\<close> was before.
\<close>

theorem deadline_reconciliation:
  assumes "reachable s"
  shows "(\<not> isRunning s \<and> toneDefined (world s) \<and> js_trim (goalInput_value s) \<noteq> [] \<longrightarrow>
            isRunning (snd (startTimer tnow dnow s))
          \<and> targetTime (snd (startTimer tnow dnow s)) = Some (tnow + timeLeft s * 1000)
          \<and> timeLeft (snd (startTimer tnow dnow s)) = timeLeft s)
       \<and> (isRunning s \<longrightarrow>
            (\<exists>t. targetTime s = Some t
               \<and> targetTime (updateDisplayLoop now s) = Some t
               \<and> timeLeft (updateDisplayLoop now s) = max 0 (round_div_1000 (t - now))))"
proof (intro conjI impI)
  assume a: "\<not> isRunning s \<and> toneDefined (world s) \<and> js_trim (goalInput_value s) \<noteq> []"
  then have tone: "toneDefined (world s)" and idle: "\<not> isRunning s"
    and goal: "js_trim (goalInput_value s) \<noteq> []"
    by simp_all
  show "isRunning (snd (startTimer tnow dnow s))"
    "targetTime (snd (startTimer tnow dnow s)) = Some (tnow + timeLeft s * 1000)"
    "timeLeft (snd (startTimer tnow dnow s)) = timeLeft s"
    unfolding startTimer_start[OF tone idle goal] by simp_all
next
  assume run: "isRunning s"
  have inv: "timer_inv s" using assms by (rule reachable_inv)
  from inv run obtain c t where t: "targetTime s = Some t"
    using inv_running by blast
  have nn: "0 \<le> timeLeft s" using inv by (rule timer_invD(1))
  have "timeLeft (updateDisplayLoop now s) = max 0 (round_div_1000 (t - now))"
    using run t nn
    by (simp add: updateDisplayLoop_def updateDisplay_def requestAnimationFrame_def
        Let_def max_def)
  moreover have "targetTime (updateDisplayLoop now s) = Some t"
    using run t
    by (simp add: updateDisplayLoop_def updateDisplay_def requestAnimationFrame_def Let_def)
  ultimately show "\<exists>t. targetTime s = Some t
               \<and> targetTime (updateDisplayLoop now s) = Some t
               \<and> timeLeft (updateDisplayLoop now s) = max 0 (round_div_1000 (t - now))"
    using t by simp
qed

text \<open>
  On the example run: the start at time 0 with 1500 s left sets the deadline 1500000 ms;
  a tick at 10 s leaves 1490 s, a tick 100 s after the deadline leaves 0.
\<close>

theorem deadline_reconciliation_witness:
  "reachable demo_idle \<and> reachable demo_running
   \<and> isRunning (snd (startTimer 0 0 demo_idle))
   \<and> targetTime (snd (startTimer 0 0 demo_idle)) = Some 1500000
   \<and> isRunning demo_running
   \<and> timeLeft (updateDisplayLoop 10000 demo_running) = 1490
   \<and> timeLeft (updateDisplayLoop 1600000 demo_running) = 0"
proof -
  have a: "\<not> isRunning demo_idle \<and> toneDefined (world demo_idle)
      \<and> js_trim (goalInput_value demo_idle) \<noteq> []" "timeLeft demo_idle = 1500"
    by (simp_all add: demo_idle_eq demo_world_def demo_goal_trim)
  have b: "isRunning demo_running" "targetTime demo_running = Some 1500000"
    by (simp_all add: demo_running_eq)
  show ?thesis
    using deadline_reconciliation[OF reachable_demo(1), of 0 0 0]
      deadline_reconciliation[OF reachable_demo(2), of 0 0 10000]
      deadline_reconciliation[OF reachable_demo(2), of 0 0 1600000]
      a b reachable_demo(1,2)
    by (simp add: round_div_1000_def)
qed

subsection \<open>C4: expiry notifies, then finalizes\<close>

text \<open>
  Claim C4: when the timer expires the notifier is invoked before the record is
  finalized, each once, and no failure in the notifier, the sound or the record store can
  prevent the session from being finalized. The code does not keep the second half.
  \<^verbatim>\<open>onTimerEnd\<close> calls \<^verbatim>\<open>playSound()\<close> and \<^verbatim>\<open>showSystemNotification()\<close>
  with no \<^verbatim>\<open>try\<close> around them, although both functions guard against a notifier
  that is not there. On the running example page, with the permission granted and
  \<^verbatim>\<open>new Notification\<close> throwing, the exception leaves \<^verbatim>\<open>onTimerEnd\<close> before
  \<^verbatim>\<open>endSession(true)\<close> is reached: nothing is logged, the record stays current
  and not finalized, and the timer still counts as running.
\<close>

theorem onTimerEnd_notifier_raises:
  "reachable demo_raising
   \<and> currentSession demo_raising = Some demo_record \<and> endTime demo_record = None
   \<and> isRunning demo_raising
   \<and> fst (onTimerEnd 1500000 demo_raising) = Some NotificationError
   \<and> sessions (snd (onTimerEnd 1500000 demo_raising)) = []
   \<and> currentSession (snd (onTimerEnd 1500000 demo_raising)) = Some demo_record
   \<and> isRunning (snd (onTimerEnd 1500000 demo_raising))"
  using reachable_demo_raising
  by (simp add: demo_raising_def raising_world_def demo_running_eq demo_world_def
      demo_record_def onTimerEnd_def playSound_def showSystemNotification_def log_effect_def)

text \<open>
  What the code does keep of C4. When neither the Tone.js calls of \<^verbatim>\<open>playSound\<close>
  nor \<^verbatim>\<open>new Notification\<close> throw, the calls on the notifier come first and once
  each (the sound loop if Tone.js is loaded, the system notification if supported and
  granted, the modal always), then the record is logged once, finalized, and then comes
  the write to storage if storage is available. A missing Tone.js, a missing or ungranted
  permission and an unavailable storage change nothing of that. A storage write that
  throws comes after the record is in the log, but leaves the handler before the timer is
  reset, with the finalized record still current.
\<close>

lemma onTimerEnd_notifies_then_logs:
  assumes "currentSession s = Some c" and "endTime c = None"
    and "\<not> (toneDefined (world s) \<and> soundRaises (world s))"
    and "\<not> (notificationSupported (world s) \<and> notificationPermission (world s) = Granted
            \<and> notificationRaises (world s))"
  shows "sessions (snd (onTimerEnd now s)) = finalize now c # sessions s
       \<and> modal_visible (snd (onTimerEnd now s))
       \<and> fst (onTimerEnd now s) =
           (if storageAvailable (world s) \<and> storageWriteRaises (world s)
            then Some QuotaExceededError else None)
       \<and> currentSession (snd (onTimerEnd now s)) =
           (if fst (onTimerEnd now s) = None then None else Some (finalize now c))
       \<and> effects (snd (onTimerEnd now s)) =
           effects s
           @ (if toneDefined (world s) then [SoundLoop] else [])
           @ (if notificationSupported (world s) \<and> notificationPermission (world s) = Granted
              then [SystemNotification (if goal c = [] then your_task else goal c)] else [])
           @ [ModalShown, SessionLogged (finalize now c)]
           @ (if storageAvailable (world s) \<and> \<not> storageWriteRaises (world s)
              then [StorageWrite (finalize now c # sessions s)] else [])"
proof -
  define s1 where "s1 = snd (playSound s)"
  have s1: "playSound s = (None, s1)" "currentSession s1 = Some c"
    "world s1 = world s" "sessions s1 = sessions s"
    "effects s1 = effects s @ (if toneDefined (world s) then [SoundLoop] else [])"
    unfolding s1_def using assms(1,3) by (simp_all add: playSound_def log_effect_def)
  define s2 where "s2 = snd (showSystemNotification s1)"
  have s2: "showSystemNotification s1 = (None, s2)" "currentSession s2 = Some c"
    "world s2 = world s" "sessions s2 = sessions s"
    "effects s2 = effects s1
       @ (if notificationSupported (world s) \<and> notificationPermission (world s) = Granted
          then [SystemNotification (if goal c = [] then your_task else goal c)] else [])"
    unfolding s2_def using assms(4) s1(2,3,4)
    by (simp_all add: showSystemNotification_def log_effect_def)
  define s3 where "s3 = log_effect ModalShown (s2\<lparr>modal_visible := True\<rparr>)"
  have s3: "currentSession s3 = Some c" "world s3 = world s" "sessions s3 = sessions s"
    "effects s3 = effects s2 @ [ModalShown]" "modal_visible s3"
    using s2 by (simp_all add: s3_def log_effect_def)
  have e: "onTimerEnd now s = endSession now True s3"
    by (simp add: onTimerEnd_def s1(1) s2(1) s3_def)
  show ?thesis
  proof (cases "storageAvailable (world s) \<and> storageWriteRaises (world s)")
    case True
    then have w: "storageAvailable (world s3)" "storageWriteRaises (world s3)"
      using s3(2) by simp_all
    show ?thesis
      unfolding e using s1(5) s2(5) s3 True
      by (simp add: endSession_raises[OF s3(1) assms(2) w])
  next
    case False
    then have w: "\<not> (storageAvailable (world s3) \<and> storageWriteRaises (world s3))"
      using s3(2) by simp
    show ?thesis
      unfolding e using s1(5) s2(5) s3 False
      by (auto simp add: endSession_active[OF s3(1) assms(2) w])
  qed
qed

text \<open>On the example run: the timeout fires at 1500 s, every collaborator working.\<close>

lemma onTimerEnd_notifies_then_logs_demo:
  "currentSession demo_running = Some demo_record \<and> endTime demo_record = None
   \<and> fst (onTimerEnd 1500000 demo_running) = None
   \<and> sessions (snd (onTimerEnd 1500000 demo_running)) = [finalize 1500000 demo_record]
   \<and> duration (finalize 1500000 demo_record) = 1500
   \<and> effects (snd (onTimerEnd 1500000 demo_running)) =
        [ToneStart, SoundLoop, SystemNotification demo_goal, ModalShown,
         SessionLogged (finalize 1500000 demo_record),
         StorageWrite [finalize 1500000 demo_record]]"
proof -
  have h: "currentSession demo_running = Some demo_record"
    by (simp add: demo_running_eq)
  have w: "world demo_running = demo_world" "sessions demo_running = []"
    "effects demo_running = [ToneStart]"
    by (simp_all add: demo_running_eq)
  have g: "goal demo_record = demo_goal" "demo_goal \<noteq> []"
    by (simp_all add: demo_record_def demo_goal_def)
  have d: "duration (finalize 1500000 demo_record) = 1500"
    by (simp add: finalize_def totalPauseTime_def round_div_1000_def demo_record_def Let_def)
  have n1: "\<not> (toneDefined (world demo_running) \<and> soundRaises (world demo_running))"
    by (simp add: w demo_world_def)
  have n2: "\<not> (notificationSupported (world demo_running)
      \<and> notificationPermission (world demo_running) = Granted
      \<and> notificationRaises (world demo_running))"
    by (simp add: w demo_world_def)
  show ?thesis
    using onTimerEnd_notifies_then_logs[OF h demo_record_open n1 n2, of 1500000] h w g d
      demo_record_open
    by (simp add: demo_world_def)
qed

subsection \<open>C5: changing the duration\<close>

text \<open>
  Claim C5, as amended. In every reachable state: while the timer is running
  \<^verbatim>\<open>changeDuration\<close> changes nothing; the duration select is disabled whenever a
  record is current, so its change event arrives only with no record and the timer not
  running, and then \<^verbatim>\<open>timeLeft\<close> and the configured duration both become the
  selected minutes times 60. (The function itself tests only \<^verbatim>\<open>isRunning\<close>: what
  keeps it from a paused session is the disabled control.)
\<close>

theorem changeDuration_guard:
  assumes "reachable s"
  shows "(isRunning s \<longrightarrow> changeDuration s = s)
       \<and> (currentSession s \<noteq> None \<longrightarrow> durationSelect_disabled s)
       \<and> (\<forall>v. enabled (SelectDuration v) s \<longrightarrow>
             currentSession s = None \<and> \<not> isRunning s
           \<and> timeLeft (step (SelectDuration v) s) = v * 60
           \<and> cfgDuration (step (SelectDuration v) s) = v * 60)"
proof -
  have inv: "timer_inv s" using assms by (rule reachable_inv)
  note d = timer_invD[OF inv]
  show ?thesis
    using d(3) d(5) by (auto simp add: changeDuration_def updateDisplay_def Let_def)
qed

text \<open>
  On the example run: no change while running; on the idle page, selecting 45 minutes
  sets 2700 seconds.
\<close>

theorem changeDuration_guard_witness:
  "reachable demo_running \<and> isRunning demo_running
   \<and> changeDuration demo_running = demo_running
   \<and> durationSelect_disabled demo_running
   \<and> reachable demo_idle \<and> enabled (SelectDuration 45) demo_idle
   \<and> timeLeft (step (SelectDuration 45) demo_idle) = 2700"
proof -
  have a: "isRunning demo_running" "currentSession demo_running \<noteq> None"
    by (simp_all add: demo_running_eq)
  have b: "enabled (SelectDuration 45) demo_idle"
    by (simp add: demo_idle_eq duration_options_def)
  show ?thesis
    using changeDuration_guard[OF reachable_demo(2)] changeDuration_guard[OF reachable_demo(1)]
      a b reachable_demo(1,2)
    by auto
qed

text \<open>
  Claim C5 as stated fails for the paused state: on the example run paused at 10 s with
  1490 s left and a record current, \<^verbatim>\<open>changeDuration\<close> is not a no-op, it puts
  \<^verbatim>\<open>timeLeft\<close> back to 1500.
\<close>

theorem changeDuration_paused_counterexample:
  "reachable demo_paused
   \<and> currentSession demo_paused \<noteq> None \<and> \<not> isRunning demo_paused
   \<and> timeLeft demo_paused = 1490
   \<and> timeLeft (changeDuration demo_paused) = 1500"
  using reachable_demo(4)
  by (simp add: demo_paused_eq changeDuration_def updateDisplay_def Let_def)

subsection \<open>C6: pause, then resume\<close>

text \<open>
  Claim C6. In every reachable state with the timer running there is a current record,
  and pressing the start/pause button twice (pause read at \<open>d1\<close>, resume read at
  \<open>d2\<close>) raises nothing, stops and restarts the timer, leaves \<^verbatim>\<open>timeLeft\<close> at the
  value it had at the pause (a late animation frame while paused changes nothing), and
  changes the record only by appending one pause entry \<open>(d1, null)\<close>, which the resume
  fills in to \<open>(d1, d2)\<close> rather than adding a second entry.
\<close>

theorem pause_resume_round_trip:
  assumes "reachable s" and "isRunning s"
  shows "\<exists>c. currentSession s = Some c
       \<and> fst (startTimer t1 d1 s) = None
       \<and> \<not> isRunning (snd (startTimer t1 d1 s))
       \<and> timeLeft (snd (startTimer t1 d1 s)) = timeLeft s
       \<and> currentSession (snd (startTimer t1 d1 s)) =
            Some (c\<lparr>pauses := pauses c @ [\<lparr>pauseTime = d1, resumeTime = None\<rparr>]\<rparr>)
       \<and> updateDisplayLoop now (snd (startTimer t1 d1 s)) = snd (startTimer t1 d1 s)
       \<and> fst (startTimer t2 d2 (snd (startTimer t1 d1 s))) = None
       \<and> isRunning (snd (startTimer t2 d2 (snd (startTimer t1 d1 s))))
       \<and> timeLeft (snd (startTimer t2 d2 (snd (startTimer t1 d1 s)))) = timeLeft s
       \<and> currentSession (snd (startTimer t2 d2 (snd (startTimer t1 d1 s)))) =
            Some (c\<lparr>pauses := pauses c @ [\<lparr>pauseTime = d1, resumeTime = Some d2\<rparr>]\<rparr>)"
proof -
  have inv: "timer_inv s" using assms(1) by (rule reachable_inv)
  from inv assms(2) obtain c where c: "currentSession s = Some c"
    using inv_running by blast
  have tone: "toneDefined (world s)" and goal: "js_trim (goalInput_value s) \<noteq> []"
    using timer_invD(8,9)[OF inv c] by simp_all
  define p where "p = snd (startTimer t1 d1 s)"
  have p1: "startTimer t1 d1 s = (None, p)"
    unfolding p_def by (simp add: startTimer_pause[OF tone assms(2) c])
  have p: "\<not> isRunning p" "timeLeft p = timeLeft s" "toneDefined (world p)"
    "js_trim (goalInput_value p) \<noteq> []"
    "currentSession p =
       Some (c\<lparr>pauses := pauses c @ [\<lparr>pauseTime = d1, resumeTime = None\<rparr>]\<rparr>)"
    unfolding p_def using tone goal by (simp_all add: startTimer_pause[OF tone assms(2) c])
  define r where "r = snd (startTimer t2 d2 p)"
  have r: "fst (startTimer t2 d2 p) = None" "isRunning r" "timeLeft r = timeLeft s"
    "currentSession r =
       Some (c\<lparr>pauses := pauses c @ [\<lparr>pauseTime = d1, resumeTime = Some d2\<rparr>]\<rparr>)"
    unfolding r_def using p(2,5)
    by (simp_all add: startTimer_start[OF p(3) p(1) p(4)] resumeLastPause_open)
  have tick: "updateDisplayLoop now p = p"
    using p(1) by (simp add: updateDisplayLoop_def)
  show ?thesis
    using c p1 p r tick by (simp add: p_def[symmetric] r_def[symmetric])
qed

text \<open>On the example run, after the tick at 10 s: pause at 10 s, resume at 15 s.\<close>

theorem pause_resume_round_trip_witness:
  "reachable demo_ticked \<and> isRunning demo_ticked \<and> timeLeft demo_ticked = 1490
   \<and> timeLeft (snd (startTimer 15000 15000 (snd (startTimer 10000 10000 demo_ticked)))) = 1490
   \<and> currentSession (snd (startTimer 15000 15000 (snd (startTimer 10000 10000 demo_ticked)))) =
        Some (demo_record\<lparr>pauses := [\<lparr>pauseTime = 10000, resumeTime = Some 15000\<rparr>]\<rparr>)"
proof -
  have a: "isRunning demo_ticked" "timeLeft demo_ticked = 1490"
    "currentSession demo_ticked = Some demo_record"
    by (simp_all add: demo_ticked_eq)
  have p: "pauses demo_record = []" by (simp add: demo_record_def)
  show ?thesis
    using pause_resume_round_trip[OF reachable_demo(3) a(1), of 10000 10000 12000 15000 15000]
      a p reachable_demo(3)
    by auto
qed

subsection \<open>C7: a blank goal does not start the timer\<close>

text \<open>
  Claim C7: a start with an empty or white-space-only goal fails with a validation error
  and changes no state. The code does not keep the first half on a page where Tone.js
  has not loaded: the first statement of \<^verbatim>\<open>startTimer\<close>, \<^verbatim>\<open>Tone.start()\<close>,
  names \<^verbatim>\<open>Tone\<close> with no guard (\<^verbatim>\<open>playSound\<close> and \<^verbatim>\<open>playTestSound\<close> test
  \<^verbatim>\<open>typeof Tone\<close> first), so the call raises a ReferenceError before the goal is
  looked at. On the fresh page without Tone.js and with an empty goal nothing changes,
  but no validation error is reported either: the goal field does not get its error
  styling.
\<close>

theorem startTimer_blank_noTone:
  "reachable demo_noTone
   \<and> \<not> isRunning demo_noTone
   \<and> js_trim (goalInput_value demo_noTone) = []
   \<and> startTimer 0 0 demo_noTone = (Some ReferenceError, demo_noTone)
   \<and> \<not> goalInput_invalid (snd (startTimer 0 0 demo_noTone))"
proof -
  have a: "\<not> toneDefined (world demo_noTone)" "\<not> isRunning demo_noTone"
    "goalInput_value demo_noTone = []" "\<not> goalInput_invalid demo_noTone"
    by (simp_all add: demo_noTone_eq noTone_world_def demo_world_def)
  show ?thesis
    using a reachable_demo_noTone
    by (simp add: startTimer_noTone js_trim_def)
qed

text \<open>
  What the code does keep of C7. With the timer not running and a goal that is empty or
  white space only, \<^verbatim>\<open>startTimer\<close> on a page with Tone.js returns normally having
  changed nothing but the report of the validation error: the goal field gets its error
  styling, the callback that removes the styling after 2000 ms is scheduled, and the calls
  \<^verbatim>\<open>Tone.start()\<close> and, when due, \<^verbatim>\<open>Notification.requestPermission()\<close> were
  made. The running flag, \<^verbatim>\<open>timeLeft\<close>, \<^verbatim>\<open>targetTime\<close>, the current record
  and the log are as before, and no completion callback is added to the pending timeouts.
  Without Tone.js nothing at all changes.
\<close>

lemma startTimer_blank_goal:
  assumes "\<not> isRunning s" and "js_trim (goalInput_value s) = []"
  shows "startTimer tnow dnow s =
           (if toneDefined (world s)
            then (None,
                  s\<lparr>goalInput_invalid := True,
                    pendingTimeouts := pendingTimeouts s @ [(nextHandle s, ClearGoalError, 2000)],
                    nextHandle := nextHandle s + 1,
                    effects := effects s @ ToneStart #
                      (if notificationSupported (world s)
                          \<and> notificationPermission (world s) = Default
                       then [PermissionRequest] else [])\<rparr>)
            else (Some ReferenceError, s))
       \<and> filter (\<lambda>t. fst (snd t) = OnTimerEnd) (pendingTimeouts (snd (startTimer tnow dnow s)))
           = filter (\<lambda>t. fst (snd t) = OnTimerEnd) (pendingTimeouts s)"
  using assms
  by (simp add: startTimer_noTone startTimer_blank permission_effects_def)

text \<open>
  On a fresh page with Tone.js whose goal field holds a space, a tab and a no-break space.
\<close>

lemma startTimer_blank_goal_demo:
  "\<not> isRunning demo_blank
   \<and> js_trim (goalInput_value demo_blank) = []
   \<and> fst (startTimer 0 0 demo_blank) = None
   \<and> \<not> isRunning (snd (startTimer 0 0 demo_blank))
   \<and> currentSession (snd (startTimer 0 0 demo_blank)) = None
   \<and> goalInput_invalid (snd (startTimer 0 0 demo_blank))
   \<and> pendingTimeouts (snd (startTimer 0 0 demo_blank)) = [(0, ClearGoalError, 2000)]"
proof -
  have a: "\<not> isRunning demo_blank" "currentSession demo_blank = None"
    "pendingTimeouts demo_blank = []" "nextHandle demo_blank = 0"
    "world demo_blank = demo_world"
    by (simp_all add: demo_blank_def initial_eq)
  have b: "js_trim (goalInput_value demo_blank) = []"
    by (simp add: demo_blank_def initial_eq js_trim_def js_whitespace_def)
  show ?thesis
    using startTimer_blank_goal[OF a(1) b, of 0 0] a b
    by (simp add: demo_world_fields)
qed

subsection \<open>C8: ending or pausing with no record\<close>

text \<open>
  Claim C8, as amended. In every reachable state with no current record,
  \<^verbatim>\<open>endSession\<close> returns normally and changes nothing but the goal field, which it
  clears: the log, the stored copy, the running flag, \<^verbatim>\<open>timeLeft\<close>, the configured
  duration, the deadline and the pending callbacks are as before. With no record the
  timer is not running, so a press of the start/pause button does not take the pause
  branch: it does not read \<^verbatim>\<open>pauses\<close> of \<^verbatim>\<open>null\<close> (no TypeError) and it
  records no pause, any record it leaves has none.
\<close>

theorem end_without_session:
  assumes "reachable s" and "currentSession s = None"
  shows "endSession now f s = (None, s\<lparr>goalInput_value := []\<rparr>)
       \<and> \<not> isRunning s
       \<and> fst (startTimer tnow dnow s) \<noteq> Some TypeError
       \<and> (\<forall>c. currentSession (snd (startTimer tnow dnow s)) = Some c \<longrightarrow> pauses c = [])"
proof -
  have inv: "timer_inv s" using assms(1) by (rule reachable_inv)
  have idle: "\<not> isRunning s" using timer_invD(5)[OF inv] assms(2) by auto
  have "endSession now f s = (None, s\<lparr>goalInput_value := []\<rparr>)"
    using assms(2) resetTimer_idle[OF inv assms(2)] by (simp add: endSession_inactive)
  moreover have "fst (startTimer tnow dnow s) \<noteq> Some TypeError
       \<and> (\<forall>c. currentSession (snd (startTimer tnow dnow s)) = Some c \<longrightarrow> pauses c = [])"
  proof (cases "toneDefined (world s)")
    case False
    then show ?thesis using assms(2) by (simp add: startTimer_noTone)
  next
    case tone: True
    show ?thesis
    proof (cases "js_trim (goalInput_value s) = []")
      case True
      then show ?thesis using assms(2) by (simp add: startTimer_blank[OF tone idle])
    next
      case False
      then show ?thesis using assms(2) by (simp add: startTimer_start[OF tone idle])
    qed
  qed
  ultimately show ?thesis using idle by simp
qed

text \<open>On the example page before the start, the goal typed.\<close>

theorem end_without_session_witness:
  "reachable demo_idle \<and> currentSession demo_idle = None
   \<and> endSession 0 False demo_idle = (None, demo_idle\<lparr>goalInput_value := []\<rparr>)
   \<and> sessions (snd (endSession 0 False demo_idle)) = sessions demo_idle
   \<and> timeLeft (snd (endSession 0 False demo_idle)) = timeLeft demo_idle
   \<and> fst (startTimer 0 0 demo_idle) \<noteq> Some TypeError"
proof -
  have a: "currentSession demo_idle = None" by (simp add: demo_idle_eq)
  show ?thesis
    using end_without_session[OF reachable_demo(1) a, of 0 False 0 0] a reachable_demo(1)
    by simp
qed

text \<open>
  Claim C8 as stated fails: ending with no record is not a no-op. On the example page
  before the start, with the goal \<^verbatim>\<open>Write\<close> typed, \<^verbatim>\<open>endSession\<close> clears the
  goal field, and the page behaves differently afterwards: the start button would have
  started the timer, and after the end it is refused for the blank goal.
\<close>

theorem end_clears_goal_counterexample:
  "reachable demo_idle
   \<and> currentSession demo_idle = None \<and> \<not> isRunning demo_idle
   \<and> goalInput_value demo_idle = [87, 114, 105, 116, 101]
   \<and> goalInput_value (snd (endSession 0 False demo_idle)) = []
   \<and> snd (endSession 0 False demo_idle) \<noteq> demo_idle
   \<and> isRunning (snd (startTimer 0 0 demo_idle))
   \<and> \<not> isRunning (snd (startTimer 0 0 (snd (endSession 0 False demo_idle))))"
proof -
  have a: "currentSession demo_idle = None" "\<not> isRunning demo_idle"
    "goalInput_value demo_idle = [87, 114, 105, 116, 101]"
    by (simp_all add: demo_idle_eq demo_goal_def)
  have e: "snd (endSession 0 False demo_idle) = demo_idle\<lparr>goalInput_value := []\<rparr>"
    using a(1) resetTimer_idle[OF reachable_inv[OF reachable_demo(1)] a(1)]
    by (simp add: endSession_inactive)
  have b: "goalInput_value (snd (endSession 0 False demo_idle)) = []"
    by (simp add: e)
  have c: "snd (endSession 0 False demo_idle) \<noteq> demo_idle"
  proof
    assume "snd (endSession 0 False demo_idle) = demo_idle"
    then have "goalInput_value (snd (endSession 0 False demo_idle)) = goalInput_value demo_idle"
      by simp
    then show False using a(3) b by simp
  qed
  have d: "isRunning (snd (startTimer 0 0 demo_idle))"
    using demo_running_eq by (simp add: demo_running_def)
  have f: "\<not> isRunning (snd (startTimer 0 0 (snd (endSession 0 False demo_idle))))"
    unfolding e
    by (subst startTimer_blank)
       (simp_all add: demo_idle_eq demo_world_fields js_trim_def)
  show ?thesis using a b c d f reachable_demo(1) by simp
qed

subsection \<open>C9: reset finalizes before it resets\<close>

text \<open>
  Claim C9: with a record current, the reset button's handler first finalizes the record
  and appends it to the store, and only then resets the timer and clears the current
  record and the goal. The code does not keep the second half when the write of the log
  to localStorage throws: \<^verbatim>\<open>saveSessions\<close> keeps only its probe inside a
  \<^verbatim>\<open>try\<close>, the exception of the write leaves \<^verbatim>\<open>endSession\<close> before
  \<^verbatim>\<open>resetTimer()\<close> and then the listener before its own \<^verbatim>\<open>resetTimer()\<close>. On
  the example run paused at 10 s with such a storage, a reset at 20 s logs the finalized
  record in memory and stops there: nothing is stored, the record stays current, 1490 s
  stay on the timer, and the goal and the disabled controls stay as they were.
\<close>

theorem resetBtn_click_storage_raises:
  "reachable demo_quota
   \<and> currentSession demo_quota =
       Some (demo_record\<lparr>pauses := [\<lparr>pauseTime = 10000, resumeTime = None\<rparr>]\<rparr>)
   \<and> fst (resetBtn_click 20000 demo_quota) = Some QuotaExceededError
   \<and> sessions (snd (resetBtn_click 20000 demo_quota)) =
       [demo_record\<lparr>pauses := [\<lparr>pauseTime = 10000, resumeTime = None\<rparr>],
                    endTime := Some 20000, duration := 20\<rparr>]
   \<and> stored (snd (resetBtn_click 20000 demo_quota)) = None
   \<and> currentSession (snd (resetBtn_click 20000 demo_quota)) =
       Some (demo_record\<lparr>pauses := [\<lparr>pauseTime = 10000, resumeTime = None\<rparr>],
                         endTime := Some 20000, duration := 20\<rparr>)
   \<and> timeLeft (snd (resetBtn_click 20000 demo_quota)) = 1490
   \<and> goalInput_value (snd (resetBtn_click 20000 demo_quota)) = demo_goal
   \<and> goalInput_disabled (snd (resetBtn_click 20000 demo_quota))
   \<and> durationSelect_disabled (snd (resetBtn_click 20000 demo_quota))"
proof -
  have q: "currentSession demo_quota =
      Some (demo_record\<lparr>pauses := [\<lparr>pauseTime = 10000, resumeTime = None\<rparr>]\<rparr>)"
    "storageAvailable (world demo_quota)" "storageWriteRaises (world demo_quota)"
    "sessions demo_quota = []" "stored demo_quota = None" "timeLeft demo_quota = 1490"
    "goalInput_value demo_quota = demo_goal" "goalInput_disabled demo_quota"
    "durationSelect_disabled demo_quota"
    by (simp_all add: demo_quota_def demo_paused_eq quota_world_def demo_world_def)
  have o: "endTime (demo_record\<lparr>pauses := [\<lparr>pauseTime = 10000, resumeTime = None\<rparr>]\<rparr>) = None"
    by (simp add: demo_record_def)
  have f: "finalize 20000 (demo_record\<lparr>pauses := [\<lparr>pauseTime = 10000, resumeTime = None\<rparr>]\<rparr>) =
      demo_record\<lparr>pauses := [\<lparr>pauseTime = 10000, resumeTime = None\<rparr>],
                    endTime := Some 20000, duration := 20\<rparr>"
    by (simp add: finalize_def totalPauseTime_def round_div_1000_def demo_record_def Let_def)
  show ?thesis
    using q f reachable_demo_quota
    by (simp add: resetBtn_click_def endSession_raises[OF q(1) o q(2,3)])
qed

text \<open>
  What the code does keep of C9. From any state with a current record not yet finalized,
  in every world, the handler logs that record finalized (\<open>endTime\<close> the time of the
  click, \<open>duration\<close> computed from it): the session is not discarded. When the write
  to storage does not throw, the handler returns normally, the log is stored if storage
  is available, and the timer is left stopped, \<^verbatim>\<open>timeLeft\<close> and the configured
  duration at the selected minutes times 60, no current record and an empty goal field.
\<close>

lemma resetBtn_click_active:
  assumes "currentSession s = Some c" and "endTime c = None"
  shows "sessions (snd (resetBtn_click now s)) = finalize now c # sessions s
       \<and> endTime (finalize now c) = Some now
       \<and> duration (finalize now c) =
           round_div_1000 ((now - startTime c) - totalPauseTime (pauses c))
       \<and> (\<not> (storageAvailable (world s) \<and> storageWriteRaises (world s)) \<longrightarrow>
            fst (resetBtn_click now s) = None
          \<and> stored (snd (resetBtn_click now s)) =
              (if storageAvailable (world s) then Some (finalize now c # sessions s)
               else stored s)
          \<and> currentSession (snd (resetBtn_click now s)) = None
          \<and> \<not> isRunning (snd (resetBtn_click now s))
          \<and> timeLeft (snd (resetBtn_click now s)) = durationSelect_value s * 60
          \<and> cfgDuration (snd (resetBtn_click now s)) = durationSelect_value s * 60
          \<and> goalInput_value (snd (resetBtn_click now s)) = [])"
proof (cases "storageAvailable (world s) \<and> storageWriteRaises (world s)")
  case True
  then show ?thesis
    using assms(1)
    by (simp add: resetBtn_click_def
        endSession_raises[OF assms conjunct1[OF True] conjunct2[OF True]]
        finalize_def Let_def)
next
  case False
  then show ?thesis
    using assms(1)
    by (simp add: resetBtn_click_def endSession_active[OF assms False] resetTimer_eq
        finalize_def Let_def)
qed

text \<open>On the example run paused at 10 s, storage working: reset at 20 s logs 20 seconds.\<close>

lemma resetBtn_click_active_demo:
  "currentSession demo_paused =
       Some (demo_record\<lparr>pauses := [\<lparr>pauseTime = 10000, resumeTime = None\<rparr>]\<rparr>)
   \<and> sessions (snd (resetBtn_click 20000 demo_paused)) =
       [demo_record\<lparr>pauses := [\<lparr>pauseTime = 10000, resumeTime = None\<rparr>],
                    endTime := Some 20000, duration := 20\<rparr>]
   \<and> currentSession (snd (resetBtn_click 20000 demo_paused)) = None
   \<and> timeLeft (snd (resetBtn_click 20000 demo_paused)) = 1500
   \<and> goalInput_value (snd (resetBtn_click 20000 demo_paused)) = []"
proof -
  have a: "currentSession demo_paused =
       Some (demo_record\<lparr>pauses := [\<lparr>pauseTime = 10000, resumeTime = None\<rparr>]\<rparr>)"
    "sessions demo_paused = []" "durationSelect_value demo_paused = 25"
    "\<not> (storageAvailable (world demo_paused) \<and> storageWriteRaises (world demo_paused))"
    by (simp_all add: demo_paused_eq demo_world_fields)
  have o: "endTime (demo_record\<lparr>pauses := [\<lparr>pauseTime = 10000, resumeTime = None\<rparr>]\<rparr>) = None"
    by (simp add: demo_record_def)
  have f: "finalize 20000 (demo_record\<lparr>pauses := [\<lparr>pauseTime = 10000, resumeTime = None\<rparr>]\<rparr>) =
      demo_record\<lparr>pauses := [\<lparr>pauseTime = 10000, resumeTime = None\<rparr>],
                    endTime := Some 20000, duration := 20\<rparr>"
    by (simp add: finalize_def totalPauseTime_def round_div_1000_def demo_record_def Let_def)
  show ?thesis
    using resetBtn_click_active[OF a(1) o, of 20000] a f
    by simp
qed

subsection \<open>C10: deleting a logged session\<close>

text \<open>
  Claim C10. For an index within the log, \<^verbatim>\<open>deleteSession\<close> leaves the records
  before the index followed by the records after it: the log is one shorter, every record
  before the index keeps its place, every record after it moves up by one, and nothing
  else changes about them, whether or not the write to storage that follows succeeds.
\<close>

theorem deleteSession_removes_index:
  assumes "0 \<le> i" and "i < int (length (sessions s))"
  shows "sessions (snd (deleteSession i s)) = take (nat i) (sessions s) @ drop (Suc (nat i)) (sessions s)
       \<and> length (sessions (snd (deleteSession i s))) + 1 = length (sessions s)
       \<and> (\<forall>j. j < nat i \<longrightarrow> sessions (snd (deleteSession i s)) ! j = sessions s ! j)
       \<and> (\<forall>j. nat i \<le> j \<and> j + 1 < length (sessions s) \<longrightarrow>
              sessions (snd (deleteSession i s)) ! j = sessions s ! (j + 1))"
proof -
  have eq: "sessions (snd (deleteSession i s)) =
      take (nat i) (sessions s) @ drop (Suc (nat i)) (sessions s)"
    using assms by (simp add: deleteSession_def saveSessions_eq updateSessionLog_def
        splice1_valid)
  have len: "nat i < length (sessions s)" using assms by linarith
  show ?thesis
    unfolding eq using len by (auto simp add: nth_append min_def)
qed

text \<open>On a page loaded with three logged sessions: deleting the middle one.\<close>

theorem deleteSession_removes_index_witness:
  "(0::int) \<le> 1 \<and> 1 < int (length (sessions demo_loaded))
   \<and> sessions (snd (deleteSession 1 demo_loaded)) = [demo_log ! 0, demo_log ! 2]"
proof -
  have s: "sessions demo_loaded = demo_log"
    by (simp add: demo_loaded_def initial_def loadSessions_def updateDisplay_def
        updateSessionLog_def isLocalStorageAvailable_def demo_world_fields)
  have n: "length demo_log = 3"
    by (simp add: demo_log_def)
  have l: "(0::int) \<le> 1" "1 < int (length (sessions demo_loaded))"
    by (simp_all add: s n)
  show ?thesis
    using deleteSession_removes_index[OF l] l
    by (simp add: s demo_log_def)
qed

end
